theory Spec2Isabelle
  imports Complex_Main
begin

section \<open>JSON payloads\<close>

text \<open>
  The repository is a catalogue of TypeScript declarations for the JSON payloads of a
  real-estate listings API. A payload is a JSON value; an object is the list of its
  members in document order.
\<close>

datatype json =
    JNull
  | JBool bool
  | JNumber rat
  | JString string
  | JArray "json list"
  | JObject "(string \<times> json) list"

section \<open>The type language of the declarations\<close>

text \<open>
  \<open>ty\<close> holds the type expressions the source files use: the primitive types, string
  literal types, the template literal type of \<open>DateFormat\<close>, unions, intersections,
  arrays, tuples and object types. An object type (\<open>oty\<close>) is an inline literal
  \<open>{ ... }\<close> with an optional string index signature, a reference to a declared
  interface by its qualified name, or one of the utility types \<open>Partial\<close>, \<open>Omit\<close>,
  \<open>Pick\<close> and \<open>&\<close> applied to object types. A member carries its name, whether it
  is written with \<open>?\<close>, its type, and the field named by a
  \<open>@deprecated use X field instead\<close> tag, if it has one.
\<close>

datatype tpiece = Hole | Text string

datatype ty =
    TString | TNumber | TBoolean | TNull | TUndefined | TUnknown
  | TLit string
  | TTemplate "tpiece list"
  | TUnion "ty list"
  | TInter "ty list"
  | TArray ty
  | TTuple "ty list"
  | TObj oty
and member = Member (mname: string) (optional: bool) (mtype: ty) (replaced_by: "string option")
and oty =
    Lit "member list" "ty option"
  | Ref string
  | Partial oty
  | Omit oty "string list"
  | Pick oty "string list"
  | Inter oty oty

abbreviation req :: "string \<Rightarrow> ty \<Rightarrow> member" where
  "req n t \<equiv> Member n False t None"

abbreviation opt :: "string \<Rightarrow> ty \<Rightarrow> member" where
  "opt n t \<equiv> Member n True t None"

abbreviation deprecated_opt :: "string \<Rightarrow> ty \<Rightarrow> string \<Rightarrow> member" where
  "deprecated_opt n t r \<equiv> Member n True t (Some r)"

text \<open>
  An interface declaration: its qualified name, its \<open>extends\<close> clause, the members of
  its body and the index signature of its body. A heritage clause names another
  interface, \<open>Omit\<close> of another interface, or \<open>Record<string, T>\<close>.
\<close>

datatype iface =
  Interface (iname: string) (heritage: "hclause list") (body: "member list") (index_sig: "ty option")
and hclause =
    Extends iface
  | ExtendsOmit iface "string list"
  | ExtendsRecord ty

text \<open>A shape is what a declaration resolves to: its members and its index signature.\<close>

type_synonym shape = "member list \<times> ty option"

fun find_member :: "member list \<Rightarrow> string \<Rightarrow> member option" where
  "find_member [] k = None"
| "find_member (m # ms) k = (if mname m = k then Some m else find_member ms k)"

text \<open>\<open>Partial<T>\<close> makes every member optional and keeps the index signature.\<close>

definition partial_shape :: "shape \<Rightarrow> shape" where
  "partial_shape sh =
     (map (\<lambda>m. Member (mname m) True (mtype m) (replaced_by m)) (fst sh), snd sh)"

text \<open>
  \<open>Omit<T, K>\<close> is \<open>Pick<T, Exclude<keyof T, K>>\<close>. When \<open>T\<close> has a string index
  signature, \<open>keyof T\<close> is \<open>string | number\<close>, excluding literal keys from it changes
  nothing, and the mapped type keeps the index signature alone: the named members of
  \<open>T\<close> are not members of the result. Without an index signature the listed keys are
  removed.
\<close>

definition omit_shape :: "string list \<Rightarrow> shape \<Rightarrow> shape" where
  "omit_shape ks sh =
     (case snd sh of
        Some t \<Rightarrow> ([], Some t)
      | None \<Rightarrow> (filter (\<lambda>m. mname m \<notin> set ks) (fst sh), None))"

text \<open>\<open>Pick<T, K>\<close> keeps the members named in \<open>K\<close> and no index signature.\<close>

definition pick_shape :: "string list \<Rightarrow> shape \<Rightarrow> shape" where
  "pick_shape ks sh = (filter (\<lambda>m. mname m \<in> set ks) (fst sh), None)"

text \<open>
  \<open>A & B\<close> on object types: the members of both; a member of both has the
  intersection of the two types.
\<close>

definition inter_shape :: "shape \<Rightarrow> shape \<Rightarrow> shape" where
  "inter_shape a b =
     (map (\<lambda>m. case find_member (fst b) (mname m) of
                  None \<Rightarrow> m
                | Some m' \<Rightarrow> Member (mname m) (optional m \<and> optional m')
                             (TInter [mtype m, mtype m']) (replaced_by m)) (fst a)
      @ filter (\<lambda>m. find_member (fst a) (mname m) = None) (fst b),
      case (snd a, snd b) of
        (Some s, Some t) \<Rightarrow> Some (TInter [s, t])
      | (Some s, None) \<Rightarrow> Some s
      | (None, r) \<Rightarrow> r)"

text \<open>
  \<open>interface X extends B { own }\<close>: the members of the body replace inherited members
  of the same name; the index signature is the body's, or else the inherited one.
\<close>

definition extend_shape :: "shape \<Rightarrow> shape \<Rightarrow> shape" where
  "extend_shape base own =
     (fst own @ filter (\<lambda>m. find_member (fst own) (mname m) = None) (fst base),
      case snd own of Some t \<Rightarrow> Some t | None \<Rightarrow> snd base)"

fun flatten :: "iface \<Rightarrow> shape"
and hshape :: "hclause \<Rightarrow> shape" where
  "flatten (Interface n hs ms idx) =
     extend_shape (foldr (\<lambda>h acc. extend_shape acc (hshape h)) hs ([], None)) (ms, idx)"
| "hshape (Extends i) = flatten i"
| "hshape (ExtendsOmit i ks) = omit_shape ks (flatten i)"
| "hshape (ExtendsRecord t) = ([], Some t)"

text \<open>An instance of a generic interface is used in place, as the object type it resolves to.\<close>

definition inline :: "iface \<Rightarrow> oty" where
  "inline i = Lit (fst (flatten i)) (snd (flatten i))"

text \<open>\<open>Record<K, V>\<close> over a union of string literals: one required member per key.\<close>

definition Record_keys :: "string list \<Rightarrow> ty \<Rightarrow> oty" where
  "Record_keys ks v = Lit (map (\<lambda>k. req k v) ks) None"

text \<open>
  The shape an object type expression resolves to, given the declarations \<open>D\<close> in scope
  (\<open>None\<close> when it names an interface that is not declared).
\<close>

fun shape_of :: "(string \<Rightarrow> iface option) \<Rightarrow> oty \<Rightarrow> shape option" where
  "shape_of D (Lit ms idx) = Some (ms, idx)"
| "shape_of D (Ref n) = map_option flatten (D n)"
| "shape_of D (Partial e) = map_option partial_shape (shape_of D e)"
| "shape_of D (Omit e ks) = map_option (omit_shape ks) (shape_of D e)"
| "shape_of D (Pick e ks) = map_option (pick_shape ks) (shape_of D e)"
| "shape_of D (Inter a b) =
     (case (shape_of D a, shape_of D b) of
        (Some x, Some y) \<Rightarrow> Some (inter_shape x y)
      | _ \<Rightarrow> None)"

definition field_type :: "shape \<Rightarrow> string \<Rightarrow> ty option" where
  "field_type sh k =
     (case find_member (fst sh) k of Some m \<Rightarrow> Some (mtype m) | None \<Rightarrow> snd sh)"

definition required_names :: "shape \<Rightarrow> string list" where
  "required_names sh = map mname (filter (\<lambda>m. \<not> optional m) (fst sh))"

definition declared_names :: "iface \<Rightarrow> string list" where
  "declared_names i = map mname (fst (flatten i))"

section \<open>Text accepted by a number placeholder\<close>

text \<open>
  A string matches the placeholder \<open>${number}\<close> of a template literal type when it is
  not empty and JavaScript's conversion of it to a number is finite. The conversion
  trims white space, reads the empty string as 0, and otherwise reads a signed
  decimal literal or an unsigned binary, octal or hexadecimal integer literal; a
  decimal value rounds to a finite double exactly when its magnitude is below
  \<open>2^1024 - 2^970\<close>.
\<close>

definition is_str_white_space :: "char \<Rightarrow> bool" where
  "is_str_white_space c = ((of_char c :: nat) \<in> {9, 10, 11, 12, 13, 32, 160})"

definition trim_white_space :: "string \<Rightarrow> string" where
  "trim_white_space s =
     rev (dropWhile is_str_white_space (rev (dropWhile is_str_white_space s)))"

definition digit_value :: "nat \<Rightarrow> char \<Rightarrow> nat option" where
  "digit_value b c =
     (let n = (of_char c :: nat);
          d = (if 48 \<le> n \<and> n \<le> 57 then Some (n - 48)
               else if 97 \<le> n \<and> n \<le> 102 then Some (n - 87)
               else if 65 \<le> n \<and> n \<le> 70 then Some (n - 55)
               else None)
      in case d of None \<Rightarrow> None | Some k \<Rightarrow> if k < b then Some k else None)"

fun digits_value :: "nat \<Rightarrow> string \<Rightarrow> nat \<Rightarrow> nat option" where
  "digits_value b [] acc = Some acc"
| "digits_value b (c # cs) acc =
     (case digit_value b c of
        None \<Rightarrow> None
      | Some d \<Rightarrow> digits_value b cs (acc * b + d))"

definition read_digits :: "nat \<Rightarrow> string \<Rightarrow> nat option" where
  "read_digits b s = (if s = [] then None else digits_value b s 0)"

definition read_signed_integer :: "string \<Rightarrow> int option" where
  "read_signed_integer s =
     (case s of
        [] \<Rightarrow> None
      | c # cs \<Rightarrow>
          if c = CHR ''-'' then map_option (\<lambda>n. - int n) (read_digits 10 cs)
          else if c = CHR ''+'' then map_option int (read_digits 10 cs)
          else map_option int (read_digits 10 s))"

definition read_mantissa :: "string \<Rightarrow> rat option" where
  "read_mantissa s =
     (let ip = takeWhile (\<lambda>c. c \<noteq> CHR ''.'') s;
          r = dropWhile (\<lambda>c. c \<noteq> CHR ''.'') s
      in if r = [] then map_option of_nat (read_digits 10 ip)
         else let fp = tl r
              in if ip = [] then map_option (\<lambda>n. of_nat n / 10 ^ length fp) (read_digits 10 fp)
                 else case read_digits 10 ip of
                        None \<Rightarrow> None
                      | Some a \<Rightarrow>
                          if fp = [] then Some (of_nat a)
                          else map_option (\<lambda>n. of_nat a + of_nat n / 10 ^ length fp)
                                 (read_digits 10 fp))"

definition read_unsigned_decimal :: "string \<Rightarrow> rat option" where
  "read_unsigned_decimal s =
     (let is_e = (\<lambda>c. c = CHR ''e'' \<or> c = CHR ''E'');
          ms = takeWhile (\<lambda>c. \<not> is_e c) s;
          es = dropWhile (\<lambda>c. \<not> is_e c) s
      in case read_mantissa ms of
           None \<Rightarrow> None
         | Some m \<Rightarrow>
             if es = [] then Some m
             else case read_signed_integer (tl es) of
                    None \<Rightarrow> None
                  | Some e \<Rightarrow> Some (if 0 \<le> e then m * 10 ^ nat e else m / 10 ^ nat (- e)))"

definition read_non_decimal :: "string \<Rightarrow> rat option" where
  "read_non_decimal s =
     (case s of
        z # x # ds \<Rightarrow>
          if z \<noteq> CHR ''0'' then None
          else if x = CHR ''b'' \<or> x = CHR ''B'' then map_option of_nat (read_digits 2 ds)
          else if x = CHR ''o'' \<or> x = CHR ''O'' then map_option of_nat (read_digits 8 ds)
          else if x = CHR ''x'' \<or> x = CHR ''X'' then map_option of_nat (read_digits 16 ds)
          else None
      | _ \<Rightarrow> None)"

definition string_to_number :: "string \<Rightarrow> rat option" where
  "string_to_number s =
     (let t = trim_white_space s
      in case t of
           [] \<Rightarrow> Some 0
         | c # cs \<Rightarrow>
             (case read_non_decimal t of
                Some q \<Rightarrow> Some q
              | None \<Rightarrow>
                  if c = CHR ''-'' then map_option uminus (read_unsigned_decimal cs)
                  else if c = CHR ''+'' then read_unsigned_decimal cs
                  else read_unsigned_decimal t))"

definition number_text :: "string \<Rightarrow> bool" where
  "number_text s =
     (s \<noteq> [] \<and>
      (case string_to_number s of
         None \<Rightarrow> False
       | Some q \<Rightarrow> \<bar>q\<bar> < 2 ^ 1024 - 2 ^ 970))"

text \<open>
  Matching a string against a template literal type: each text piece must occur, in
  order; a placeholder takes the text up to the next occurrence of the following text
  piece, and the last placeholder takes the rest.
\<close>

fun split_at_text :: "string \<Rightarrow> string \<Rightarrow> (string \<times> string) option" where
  "split_at_text t [] = (if t = [] then Some ([], []) else None)"
| "split_at_text t (c # cs) =
     (if take (length t) (c # cs) = t then Some ([], drop (length t) (c # cs))
      else map_option (\<lambda>ab. (c # fst ab, snd ab)) (split_at_text t cs))"

fun match_template :: "tpiece list \<Rightarrow> string \<Rightarrow> bool" where
  "match_template [] s = (s = [])"
| "match_template (Text t # ps) s =
     (take (length t) s = t \<and> match_template ps (drop (length t) s))"
| "match_template [Hole] s = number_text s"
| "match_template (Hole # Text t # ps) s =
     (case split_at_text t s of
        None \<Rightarrow> False
      | Some ab \<Rightarrow> number_text (fst ab) \<and> match_template ps (snd ab))"
| "match_template (Hole # Hole # ps) s =
     (case s of [] \<Rightarrow> False | c # cs \<Rightarrow> number_text [c] \<and> match_template (Hole # ps) cs)"

section \<open>Conformance of a payload to a type\<close>

text \<open>
  \<open>conforms D t v\<close>: the JSON value \<open>v\<close>, written as a literal, is assignable to the
  type \<open>t\<close> under the declarations \<open>D\<close>, with strict null checks. For an object type
  this is the check the compiler makes on an object literal: the member names are
  distinct, every required member is present, every member that is declared has a
  value of its declared type, and a member that is not declared is admitted only by
  an index signature, at the type of the index signature. JSON has no \<open>undefined\<close>
  value, so an optional member is either absent or holds a value of its type.
\<close>

function conforms :: "(string \<Rightarrow> iface option) \<Rightarrow> ty \<Rightarrow> json \<Rightarrow> bool" where
  "conforms D TString v = (case v of JString s \<Rightarrow> True | _ \<Rightarrow> False)"
| "conforms D TNumber v = (case v of JNumber n \<Rightarrow> True | _ \<Rightarrow> False)"
| "conforms D TBoolean v = (case v of JBool b \<Rightarrow> True | _ \<Rightarrow> False)"
| "conforms D TNull v = (v = JNull)"
| "conforms D TUndefined v = False"
| "conforms D TUnknown v = True"
| "conforms D (TLit s) v = (v = JString s)"
| "conforms D (TTemplate ps) v = (case v of JString s \<Rightarrow> match_template ps s | _ \<Rightarrow> False)"
| "conforms D (TUnion ts) v = (\<exists>t \<in> set ts. conforms D t v)"
| "conforms D (TInter ts) v = (\<forall>t \<in> set ts. conforms D t v)"
| "conforms D (TArray t) v =
     (case v of JArray xs \<Rightarrow> (\<forall>x \<in> set xs. conforms D t x) | _ \<Rightarrow> False)"
| "conforms D (TTuple ts) v =
     (case v of
        JArray xs \<Rightarrow>
          length xs = length ts \<and> (\<forall>tx \<in> set (zip ts xs). conforms D (fst tx) (snd tx))
      | _ \<Rightarrow> False)"
| "conforms D (TObj e) v =
     (case v of
        JObject fs \<Rightarrow>
          (case shape_of D e of
             None \<Rightarrow> False
           | Some sh \<Rightarrow>
               distinct (map fst fs)
             \<and> set (required_names sh) \<subseteq> set (map fst fs)
             \<and> (\<forall>kx \<in> set fs.
                   case field_type sh (fst kx) of
                     None \<Rightarrow> False
                   | Some t \<Rightarrow> conforms D t (snd kx)))
      | _ \<Rightarrow> False)"
  by pat_completeness auto
termination
proof (relation "inv_image (measure size <*lex*> measure size) (\<lambda>(D, t, v). (v, t))", goal_cases)
  have json_elem_size: "x \<in> set xs \<Longrightarrow> size x < Suc (size_list size xs)"
    for x :: json and xs
    by (induction xs) auto
  have json_field_size:
    "(k, x) \<in> set fs \<Longrightarrow> size x < Suc (size_list (size_prod (\<lambda>_. 0) size) fs)"
    for k :: string and x :: json and fs
    by (induction fs) auto
  have ty_elem_size: "t \<in> set ts \<Longrightarrow> size t < Suc (size_list size ts)"
    for t :: ty and ts
    by (induction ts) auto
  {
  case 1
  show ?case by (intro wf_inv_image wf_lex_prod wf_measure)
next
  case (2 D ts v t)
  then show ?case by (simp add: ty_elem_size)
next
  case (3 D ts v t)
  then show ?case by (simp add: ty_elem_size)
next
  case (4 D t v xs x)
  then show ?case by (simp add: json_elem_size)
next
  case (5 D ts v xs tx)
  then have "snd tx \<in> set xs" by (metis in_set_zipE prod.collapse)
  with 5 show ?case by (cases tx) (simp add: json_elem_size)
next
  case (6 D e v fs sh kx t)
  then have "(fst kx, snd kx) \<in> set fs" by simp
  with 6 show ?case by (cases kx) (simp add: json_field_size)
  }
qed

text \<open>
  \<open>typeof XValues[number]\<close>: the union of the string literal types of the elements of
  the constant array.
\<close>

definition values_type :: "string list \<Rightarrow> ty" where
  "values_type xs = TUnion (map TLit xs)"

section \<open>The declarations\<close>

subsection \<open>The shared core (index.ts)\<close>

definition ApiRequest :: iface where
  "ApiRequest = Interface ''ApiRequest'' [ExtendsRecord TUnknown] [] None"

definition ApiResponse :: iface where
  "ApiResponse = Interface ''ApiResponse'' [ExtendsRecord TUnknown] [] None"

definition ApiRequestBody :: iface where
  "ApiRequestBody = Interface ''ApiRequestBody'' [ExtendsRecord TUnknown] [] None"

definition AggregatesValues :: "string list" where
  "AggregatesValues = [
     ''class'',
     ''status'',
     ''lastStatus'',
     ''type'',
     ''listPrice'',
     ''map'',
     ''address.area'',
     ''address.city'',
     ''address.neighborhood'',
     ''address.district'',
     ''address.streetName'',
     ''address.majorIntersection'',
     ''address.zip'',
     ''address.state'',
     ''address.communityCode'',
     ''address.streetDirection'',
     ''permissions.displayPublic'',
     ''permissions.displayInternetEntireListing'',
     ''permissions.displayAddressOnInternet'',
     ''details.propertyType'',
     ''details.style'',
     ''detail.numBedrooms'',
     ''details.numBathrooms'',
     ''details.businessType'',
     ''details.businessSubType'',
     ''details.basement1'',
     ''details.basement2'',
     ''details.garage'',
     ''details.den'',
     ''details.sewer'',
     ''details.waterSource'',
     ''details.heating'',
     ''details.swimmingPool'',
     ''details.yearBuilt'',
     ''details.exteriorConstruction'',
     ''details.exteriorConstruction2'',
     ''details.sqft'',
     ''details.balcony'',
     ''details.driveway'',
     ''condominium.locker'',
     ''condominium.exposure'',
     ''condominium.ammenities'',
     ''condominium.pets'',
     ''condominium.parkingType'',
     ''condominium.stories'',
     ''condominium.propertyMgr'',
     ''condominium.condoCorp'',
     ''condominium.ensuiteLaundry'',
     ''nearby.ammenities'',
     ''office.brokerageName'',
     ''photoCount'']"

definition Aggregates :: ty where
  "Aggregates = values_type AggregatesValues"

definition DateFormat :: ty where
  "DateFormat = TTemplate [Hole, Text ''-'', Hole, Text ''-'', Hole]"

definition YesNoValues :: "string list" where
  "YesNoValues = [
     ''Y'',
     ''N'']"

definition YesNo :: ty where
  "YesNo = values_type YesNoValues"

definition ClassValues :: "string list" where
  "ClassValues = [
     ''condo'',
     ''residential'',
     ''commercial'']"

definition Class :: ty where
  "Class = values_type ClassValues"

definition LastStatusValues :: "string list" where
  "LastStatusValues = [
     ''Sus'',
     ''Exp'',
     ''Sld'',
     ''Ter'',
     ''Dft'',
     ''Lsd'',
     ''Sc'',
     ''Sce'',
     ''Lc'',
     ''Pc'',
     ''Ext'',
     ''New'']"

definition LastStatus :: ty where
  "LastStatus = values_type LastStatusValues"

definition OperatorValues :: "string list" where
  "OperatorValues = [
     ''AND'',
     ''OR'']"

definition Operator :: ty where
  "Operator = values_type OperatorValues"

definition SimilarSortByValues :: "string list" where
  "SimilarSortByValues = [
     ''updatedOnDesc'',
     ''updatedOnAsc'',
     ''createdOnAsc'',
     ''createdOnDesc'']"

definition SimilarSortBy :: ty where
  "SimilarSortBy = values_type SimilarSortByValues"

definition SortByValues :: "string list" where
  "SortByValues = [
     ''createdOnDesc'',
     ''updatedOnDesc'',
     ''createdOnAsc'',
     ''distanceAsc'',
     ''distanceDesc'',
     ''updatedOnAsc'',
     ''soldDateAsc'',
     ''soldDateDesc'',
     ''soldPriceAsc'',
     ''soldPriceDesc'',
     ''sqftAsc'',
     ''sqftDesc'',
     ''listPriceAsc'',
     ''listPriceDesc'',
     ''bedsAsc'',
     ''bedsDesc'',
     ''bathsDesc'',
     ''bathsAsc'',
     ''yearBuiltDesc'',
     ''yearBuiltAsc'',
     ''random'',
     ''statusAscListDateAsc'',
     ''statusAscListDateDesc'',
     ''statusAscListPriceAsc'',
     ''statusAscListPriceDesc'',
     ''repliersUpdatedOnAsc'',
     ''repliersUpdatedOnDesc'']"

definition SortBy :: ty where
  "SortBy = values_type SortByValues"

definition StatisticsValues :: "string list" where
  "StatisticsValues = [
     ''avg-daysOnMarket'',
     ''sum-daysOnMarket'',
     ''min-daysOnMarket'',
     ''max-daysOnMarket'',
     ''avg-listPrice'',
     ''sum-listPrice'',
     ''min-listPrice'',
     ''max-listPrice'',
     ''avg-soldPrice'',
     ''sum-soldPrice'',
     ''min-soldPrice'',
     ''max-soldPrice'',
     ''cnt-new'',
     ''cnt-closed'',
     ''cnt-available'',
     ''med-listPrice'',
     ''med-soldPrice'',
     ''med-daysOnMarket'',
     ''sd-listPrice'',
     ''sd-soldPrice'',
     ''sd-daysOnMarket'',
     ''avg-priceSqft'',
     ''grp-mth'',
     ''grp-yr'',
     ''grp-day'',
     ''avg-tax'',
     ''med-tax'']"

definition Statistics :: ty where
  "Statistics = values_type StatisticsValues"

definition StatusValues :: "string list" where
  "StatusValues = [
     ''A'',
     ''U'']"

definition Status :: ty where
  "Status = values_type StatusValues"

definition TypeValues :: "string list" where
  "TypeValues = [
     ''sale'',
     ''lease'']"

definition Type :: ty where
  "Type = values_type TypeValues"

subsection \<open>The Estimate group (estimate.ts)\<close>

definition Estimate_Estimate :: iface where
  "Estimate_Estimate = Interface ''Estimate.Estimate'' [] [
     req ''estimateId'' TNumber,
     opt ''clientId'' TNumber,
     req ''createdOn'' TString,
     req ''updatedOn'' (TUnion [TString, TNull]),
     req ''estimate'' TNumber,
     req ''estimateHigh'' TNumber,
     req ''estimateLow'' TNumber,
     req ''confidence'' TNumber,
     req ''payload'' (TObj (Lit [
        req ''address'' (TObj (Lit [
           req ''city'' TString,
           req ''streetName'' TString,
           req ''streetNumber'' TString,
           req ''streetSuffix'' TString,
           req ''zip'' TString] None)),
        req ''details'' (TObj (Lit [] (Some TUnknown))),
        req ''taxes'' (TObj (Lit [
           req ''annualAmount'' TNumber] None)),
        req ''map'' (TObj (Lit [
           req ''latitude'' TNumber,
           req ''longitude'' TNumber] None)),
        req ''condominium'' (TObj (Lit [] (Some TUnknown))),
        req ''lot'' (TObj (Lit [
           req ''acres'' TString,
           req ''depth'' TString,
           req ''width'' TString] None))] (Some TUnknown))),
     opt ''history'' (TObj (Lit [
        req ''mth'' (TObj (Lit [] (Some (TObj (Lit [
           req ''value'' TNumber] None)))))] None)),
     opt ''sendEmailMonthly'' TBoolean] None"

definition Estimate_AddCondominium :: iface where
  "Estimate_AddCondominium = Interface ''Estimate.AddCondominium'' [] [
     opt ''ammenities'' (TArray TString),
     opt ''exposure'' TString,
     opt ''fees'' (TObj (Lit [
        opt ''cableIncl'' YesNo,
        opt ''heatIncl'' YesNo,
        opt ''hydroIncl'' YesNo,
        opt ''maintenance'' TNumber,
        opt ''parkingIncl'' YesNo,
        opt ''taxesIncl'' YesNo,
        opt ''waterIncl'' YesNo] None)),
     opt ''parkingType'' TString,
     opt ''pets'' (TUnion [TLit ''N'', TLit ''Restrict'']),
     opt ''stories'' TNumber] None"

definition Estimate_AddRequest :: iface where
  "Estimate_AddRequest = Interface ''Estimate.AddRequest'' [Extends ApiRequest] [
     opt ''clientId'' TNumber,
     opt ''boardId'' TNumber,
     opt ''address'' (TObj (Lit [
        req ''city'' TString,
        req ''streetName'' TString,
        req ''streetNumber'' TString,
        req ''streetSuffix'' TString,
        opt ''unitNumber'' TString,
        req ''zip'' TString] None)),
     opt ''condominium'' (TObj (Ref ''Estimate.AddCondominium'')),
     opt ''details'' (TObj (Lit [
        opt ''basement1'' TString,
        opt ''basement2'' TString,
        opt ''driveway'' TString,
        opt ''exteriorConstruction1'' TString,
        opt ''exteriorConstruction2'' TString,
        req ''extras'' TString,
        opt ''garage'' TString,
        opt ''heating'' TString,
        req ''numBathrooms'' TNumber,
        opt ''numBathroomsPlus'' TNumber,
        req ''numBedrooms'' TNumber,
        opt ''numBedroomsPlus'' TNumber,
        opt ''numFireplaces'' YesNo,
        opt ''numGarageSpaces'' TNumber,
        opt ''numParkingSpaces'' TNumber,
        req ''propertyType'' TString,
        req ''sqft'' TNumber,
        req ''style'' TString,
        opt ''swimmingPool'' TString,
        opt ''yearBuilt'' TString] None)),
     opt ''lot'' (TObj (Lit [
        opt ''acres'' TString,
        opt ''depth'' TNumber,
        opt ''width'' TNumber] None)),
     opt ''sendEmailNow'' TBoolean,
     opt ''sendEmailMonthly'' TBoolean,
     opt ''taxes'' (TObj (Lit [
        req ''annualAmount'' TNumber] None))] None"

definition Estimate_AddResponse :: iface where
  "Estimate_AddResponse = Interface ''Estimate.AddResponse'' [Extends ApiResponse] [
     req ''estimate'' TNumber,
     req ''estimateLow'' TNumber,
     req ''estimateHigh'' TNumber,
     req ''confidence'' TNumber,
     opt ''request'' (TObj (Ref ''Estimate.AddRequest'')),
     opt ''payload'' (TObj (Ref ''Estimate.AddRequest'')),
     opt ''history'' (TObj (Lit [
        req ''mth'' (TObj (Lit [] (Some (TObj (Lit [
           req ''value'' TNumber] None)))))] None))] None"

definition Estimate_GetRequest :: iface where
  "Estimate_GetRequest = Interface ''Estimate.GetRequest'' [Extends ApiRequest] [
     opt ''clientId'' TNumber,
     opt ''estimateId'' TNumber,
     opt ''pageNum'' TNumber,
     opt ''resultsPerPage'' TNumber] None"

definition Estimate_GetResponse :: iface where
  "Estimate_GetResponse = Interface ''Estimate.GetResponse'' [Extends ApiRequest] [
     req ''page'' TNumber,
     req ''numPages'' TNumber,
     req ''pageSize'' TNumber,
     req ''count'' TNumber,
     req ''estimates'' (TArray (TObj (Ref ''Estimate.Estimate'')))] None"

definition Estimate_DeleteRequest :: iface where
  "Estimate_DeleteRequest = Interface ''Estimate.DeleteRequest'' [Extends ApiRequest] [
     req ''estimateId'' TNumber] None"

definition Estimate_DeleteResponse :: iface where
  "Estimate_DeleteResponse = Interface ''Estimate.DeleteResponse'' [Extends ApiRequest] [
     req ''estimateId'' TNumber] None"

definition Estimate_PatchRequest :: iface where
  "Estimate_PatchRequest = Interface ''Estimate.PatchRequest'' [ExtendsOmit Estimate_AddRequest [''boardId'']] [
     req ''estimateId'' TNumber] None"

definition Estimate_PatchResponse :: iface where
  "Estimate_PatchResponse = Interface ''Estimate.PatchResponse'' [Extends Estimate_GetResponse] [] None"

subsection \<open>The Listings group (listings.ts)\<close>

definition Listings_StreetDirectionValues :: "string list" where
  "Listings_StreetDirectionValues = [
     ''n'',
     ''e'',
     ''w'',
     ''s'',
     '''']"

definition Listings_StreetDirection :: ty where
  "Listings_StreetDirection = values_type Listings_StreetDirectionValues"

definition Listings_CoverImageValues :: "string list" where
  "Listings_CoverImageValues = [
     ''kitchen'',
     ''powder room'',
     ''ensuite'',
     ''family room'',
     ''exterior front'',
     ''backyard'',
     ''staircase'',
     ''primary bedroom'',
     ''laundry room'',
     ''office'',
     ''garage'']"

definition Listings_CoverImage :: ty where
  "Listings_CoverImage = values_type Listings_CoverImageValues"

definition Listings_Room :: iface where
  "Listings_Room = Interface ''Listings.Room'' [] [
     opt ''description'' TString,
     opt ''features'' (TUnion [TString, TNull]),
     opt ''features2'' (TUnion [TString, TNull]),
     opt ''features3'' (TUnion [TString, TNull]),
     opt ''length'' (TUnion [TString, TNull]),
     opt ''width'' (TUnion [TString, TNull]),
     opt ''level'' (TUnion [TString, TNull])] None"

definition Listings_Bathroom :: iface where
  "Listings_Bathroom = Interface ''Listings.Bathroom'' [] [
     opt ''pieces'' TString,
     opt ''level'' TString,
     opt ''count'' TString] None"

definition Listings_Timestamp :: iface where
  "Listings_Timestamp = Interface ''Listings.Timestamp'' [] [
     opt ''idxUpdated'' (TUnion [TString, TNull]),
     opt ''listingUpdated'' (TUnion [TString, TNull]),
     opt ''photosUpdated'' (TUnion [TString, TNull]),
     opt ''conditionalExpiryDate'' (TUnion [TString, TNull]),
     opt ''terminatedDate'' (TUnion [TString, TNull]),
     opt ''suspendedDate'' (TUnion [TString, TNull]),
     opt ''listingEntryDate'' (TUnion [TString, TNull]),
     opt ''closedDate'' (TUnion [TString, TNull]),
     opt ''unavailableDate'' (TUnion [TString, TNull]),
     opt ''expiryDate'' (TUnion [TString, TNull]),
     opt ''extensionEntryDate'' (TUnion [TString, TNull]),
     opt ''possessionDate'' (TUnion [TString, TNull]),
     opt ''repliersUpdatedOn'' TString] None"

definition Listings_Condominium :: iface where
  "Listings_Condominium = Interface ''Listings.Condominium'' [] [
     opt ''ammenities'' (TArray TString),
     opt ''buildingInsurance'' (TUnion [TString, TNull]),
     opt ''condoCorp'' (TUnion [TString, TNull]),
     opt ''condoCorpNum'' (TUnion [TString, TNull]),
     opt ''exposure'' (TUnion [TString, TNull]),
     opt ''lockerNumber'' TString,
     opt ''locker'' (TUnion [TString, TNull]),
     opt ''parkingType'' (TUnion [TString, TNull]),
     opt ''pets'' (TUnion [TString, TNull]),
     opt ''propertyMgr'' (TUnion [TString, TNull]),
     opt ''stories'' (TUnion [TString, TNull]),
     opt ''fees'' (TObj (Lit [
        opt ''cableIncl'' (TUnion [YesNo, TString, TNull]),
        opt ''heatIncl'' (TUnion [YesNo, TString, TNull]),
        opt ''hydroIncl'' (TUnion [YesNo, TString, TNull]),
        opt ''maintenance'' (TUnion [TString, TNull]),
        opt ''parkingIncl'' (TUnion [YesNo, TString, TNull]),
        opt ''taxesIncl'' (TUnion [YesNo, TString, TNull]),
        opt ''waterIncl'' (TUnion [YesNo, TString, TNull])] None)),
     opt ''lockerUnitNumber'' (TUnion [TString, TNull]),
     opt ''ensuiteLaundry'' (TUnion [YesNo, TString, TNull]),
     opt ''sharesPercentage'' (TUnion [TString, TNull]),
     opt ''lockerLevel'' (TUnion [TString, TNull]),
     opt ''unitNumber'' (TUnion [TString, TNull])] None"

definition Listings_OpenHouse :: iface where
  "Listings_OpenHouse = Interface ''Listings.OpenHouse'' [] [
     opt ''date'' TString,
     opt ''startTime'' TString,
     opt ''endTime'' TString,
     opt ''type'' (TUnion [TString, TNull]),
     opt ''status'' (TUnion [TString, TNull]),
     opt ''TZ'' (TUnion [TString, TNull])] None"

definition Listings_Details :: iface where
  "Listings_Details = Interface ''Listings.Details'' [ExtendsRecord TUnknown] [
     opt ''airConditioning'' (TUnion [TString, TNull]),
     opt ''basement1'' (TUnion [TString, TNull]),
     opt ''basement2'' (TUnion [TString, TNull]),
     opt ''centralVac'' (TUnion [TString, TNull]),
     opt ''den'' (TUnion [YesNo, TNull]),
     opt ''description'' (TUnion [TString, TNull]),
     opt ''elevator'' (TUnion [TString, TNull]),
     opt ''exteriorConstruction1'' (TUnion [TString, TNull]),
     opt ''exteriorConstruction2'' (TUnion [TString, TNull]),
     opt ''extras'' (TUnion [TString, TNull]),
     opt ''furnished'' (TUnion [TString, TNull]),
     opt ''garage'' (TUnion [TString, TNull]),
     opt ''heating'' (TUnion [TString, TNull]),
     opt ''numBathrooms'' (TUnion [TString, TNull]),
     opt ''numBathroomsPlus'' (TUnion [TString, TNull]),
     opt ''numBedrooms'' (TUnion [TString, TNull]),
     opt ''numBedroomsPlus'' (TUnion [TString, TNull]),
     opt ''numFireplaces'' (TUnion [YesNo, TString, TNull]),
     opt ''numGarageSpaces'' (TUnion [TString, TNull]),
     opt ''numParkingSpaces'' (TUnion [TString, TNull]),
     opt ''numRooms'' (TUnion [TString, TNull]),
     opt ''numRoomsPlus'' (TUnion [TString, TNull]),
     opt ''patio'' (TUnion [TString, TNull]),
     opt ''propertyType'' (TUnion [TString, TNull]),
     opt ''sqft'' (TUnion [TString, TNull]),
     opt ''style'' (TUnion [TString, TNull]),
     opt ''swimmingPool'' (TUnion [TString, TNull]),
     opt ''virtualTourUrl'' (TUnion [TString, TNull]),
     opt ''yearBuilt'' (TUnion [TString, TNull]),
     opt ''landAccessType'' (TUnion [TString, TNull]),
     opt ''landSewer'' (TUnion [TString, TNull]),
     opt ''viewType'' (TUnion [TString, TNull]),
     opt ''zoningDescription'' (TUnion [TString, TNull]),
     opt ''analyticsClick'' (TUnion [TString, TNull]),
     opt ''moreInformationLink'' (TUnion [TString, TNull]),
     opt ''alternateURLVideoLink'' (TUnion [TString, TNull]),
     opt ''flooringType'' (TUnion [TString, TNull]),
     opt ''foundationType'' (TUnion [TString, TNull]),
     opt ''landscapeFeatures'' (TUnion [TString, TNull]),
     opt ''fireProtection'' (TUnion [TString, TNull]),
     opt ''roofMaterial'' (TUnion [TString, TNull]),
     opt ''farmType'' (TUnion [TString, TNull]),
     opt ''zoningType'' (TUnion [TString, TNull]),
     opt ''businessType'' (TUnion [TString, TNull]),
     opt ''businessSubType'' (TUnion [TString, TNull]),
     opt ''landDisposition'' (TUnion [TString, TNull]),
     opt ''storageType'' (TUnion [TString, TNull]),
     opt ''constructionStyleSplitLevel'' (TUnion [TString, TNull]),
     opt ''constructionStatus'' (TUnion [TString, TNull]),
     opt ''loadingType'' (TUnion [TString, TNull]),
     opt ''ceilingType'' (TUnion [TString, TNull]),
     opt ''liveStreamEventURL'' (TUnion [TString, TNull]),
     opt ''energuideRating'' (TUnion [TString, TNull]),
     opt ''amperage'' (TUnion [TString, TNull]),
     opt ''sewer'' (TUnion [TString, TNull]),
     opt ''familyRoom'' (TUnion [YesNo, TNull]),
     opt ''zoning'' (TUnion [TString, TNull]),
     opt ''driveway'' (TUnion [TString, TNull]),
     opt ''leaseTerms'' (TUnion [TString, TNull]),
     opt ''centralAirConditioning'' (TUnion [TString, TNull]),
     opt ''certificationLevel'' (TUnion [TString, TNull]),
     opt ''energyCertification'' (TUnion [TString, TNull]),
     opt ''parkCostMonthly'' (TUnion [TString, TNull]),
     opt ''commonElementsIncluded'' (TUnion [TString, TNull]),
     opt ''greenPropertyInformationStatement'' (TUnion [TString, TNull]),
     opt ''handicappedEquipped'' (TUnion [TString, TNull]),
     opt ''laundryLevel'' (TUnion [TString, TNull]),
     opt ''balcony'' (TUnion [TString, TNull]),
     opt ''numKitchens'' (TUnion [TString, TNull]),
     opt ''numKitchensPlus'' (TUnion [TString, TNull]),
     opt ''sqftRange'' (TUnion [TString, TNull]),
     opt ''numDrivewaySpaces'' (TUnion [TString, TNull]),
     opt ''HOAFee'' (TUnion [TString, TNull]),
     opt ''HOAFee2'' (TUnion [TString, TNull]),
     opt ''HOAFee3'' (TUnion [TString, TNull]),
     opt ''waterSource'' (TUnion [TString, TNull]),
     opt ''livingAreaMeasurement'' (TUnion [TString, TNull]),
     opt ''waterfront'' (TUnion [TString, TNull]),
     opt ''bathrooms'' (TObj (Lit [] (Some (TObj (Ref ''Listings.Bathroom''))))),
     opt ''numBathroomsHalf'' (TUnion [TString, TNull])] None"

definition Listings_ListingClass :: ty where
  "Listings_ListingClass = TLit ''ResidentialProperty''"

definition Listings_Address :: iface where
  "Listings_Address = Interface ''Listings.Address'' [] [
     opt ''area'' (TUnion [TString, TNull]),
     opt ''city'' (TUnion [TString, TNull]),
     opt ''country'' (TUnion [TString, TNull]),
     opt ''district'' (TUnion [TString, TNull]),
     opt ''majorIntersection'' (TUnion [TString, TNull]),
     opt ''neighborhood'' (TUnion [TString, TNull]),
     opt ''streetDirection'' (TUnion [Listings_StreetDirection, TNull]),
     opt ''streetName'' (TUnion [TString, TNull]),
     opt ''streetNumber'' (TUnion [TString, TNull]),
     opt ''streetSuffix'' (TUnion [TString, TNull]),
     opt ''unitNumber'' (TUnion [TString, TNull]),
     opt ''zip'' (TUnion [TString, TNull]),
     opt ''state'' (TUnion [TString, TNull]),
     opt ''communityCode'' (TUnion [TString, TNull]),
     opt ''streetDirectionPrefix'' (TUnion [TString, TNull])] None"

definition Listings_Listing :: iface where
  "Listings_Listing = Interface ''Listings.Listing'' [ExtendsRecord TUnknown] [
     opt ''mlsNumber'' TString,
     opt ''resource'' TString,
     opt ''status'' Status,
     opt ''class'' Class,
     opt ''type'' Type,
     opt ''listPrice'' TString,
     opt ''listDate'' TString,
     opt ''lastStatus'' LastStatus,
     opt ''soldPrice'' (TUnion [TString, TNull]),
     opt ''soldDate'' (TUnion [TString, TNull]),
     opt ''originalPrice'' TString,
     opt ''assignment'' (TUnion [TString, TNull]),
     opt ''address'' (TObj (Ref ''Listings.Address'')),
     opt ''map'' (TObj (Ref ''Listings.Map'')),
     opt ''permissions'' (TObj (Lit [
        opt ''displayAddressOnInternet'' YesNo,
        opt ''displayPublic'' YesNo,
        opt ''displayInternetEntireListing'' YesNo] None)),
     opt ''images'' (TArray TString),
     opt ''photoCount'' TNumber,
     opt ''details'' (TObj (Ref ''Listings.Details'')),
     opt ''daysOnMarket'' TString,
     opt ''occupancy'' (TUnion [TString, TNull]),
     opt ''updatedOn'' (TUnion [TString, TNull]),
     opt ''condominium'' (TObj (Ref ''Listings.Condominium'')),
     opt ''coopCompensation'' (TUnion [TString, TNull]),
     opt ''lot'' (TObj (Lit [
        opt ''acres'' (TUnion [TString, TNull]),
        opt ''depth'' (TUnion [TString, TNull]),
        opt ''irregular'' (TUnion [TString, TNull]),
        opt ''legalDescription'' (TUnion [TString, TNull]),
        opt ''measurement'' (TUnion [TString, TNull]),
        opt ''width'' (TUnion [TString, TNull]),
        opt ''size'' (TUnion [TString, TNull]),
        opt ''source'' (TUnion [TString, TNull]),
        opt ''dimensionsSource'' (TUnion [TString, TNull]),
        opt ''dimensions'' (TUnion [TString, TNull]),
        opt ''squareFeet'' (TUnion [TString, TNull]),
        opt ''features'' (TUnion [TString, TNull]),
        opt ''taxLot'' (TUnion [TString, TNull])] None)),
     opt ''nearby'' (TObj (Lit [
        opt ''ammenities'' (TArray TString)] None)),
     opt ''office'' (TObj (Lit [
        opt ''brokerageName'' TString] None)),
     opt ''openHouse'' (TObj (Lit [] (Some (TObj (Ref ''Listings.OpenHouse''))))),
     opt ''rooms'' (TObj (Lit [] (Some (TObj (Ref ''Listings.Room''))))),
     opt ''taxes'' (TObj (Lit [
        opt ''annualAmount'' (TUnion [TString, TNull]),
        opt ''assessmentYear'' (TUnion [TString, TNull])] None)),
     opt ''timestamps'' (TObj (Ref ''Listings.Timestamp'')),
     opt ''agents'' (TArray (TObj (Lit [
        opt ''agentId'' (TUnion [TString, TNull]),
        opt ''boardAgentId'' TString,
        opt ''officeId'' TString,
        opt ''updatedOn'' (TUnion [TString, TNull]),
        opt ''name'' (TUnion [TString, TNull]),
        opt ''board'' (TUnion [TString, TNull]),
        opt ''boardOfficeId'' (TUnion [TString, TNull]),
        opt ''position'' (TUnion [TString, TNull]),
        opt ''email'' (TUnion [TString, TNull]),
        opt ''phones'' (TArray TString),
        opt ''social'' (TArray TString),
        opt ''website'' (TUnion [TString, TNull]),
        opt ''photo'' (TObj (Lit [
           opt ''small'' (TUnion [TString, TNull]),
           opt ''large'' (TUnion [TString, TNull]),
           opt ''updatedOn'' (TUnion [TString, TNull])] None)),
        opt ''brokerage'' (TObj (Lit [
           opt ''name'' TString,
           opt ''address'' (TObj (Lit [
              opt ''address1'' (TUnion [TString, TNull]),
              opt ''address2'' (TUnion [TString, TNull]),
              opt ''city'' (TUnion [TString, TNull]),
              opt ''state'' (TUnion [TString, TNull]),
              opt ''postal'' (TUnion [TString, TNull]),
              opt ''country'' (TUnion [TString, TNull])] None))] None))] (Some TUnknown)))),
     opt ''duplicates'' (TArray TString),
     opt ''boardId'' TNumber,
     opt ''comparables'' (TArray (TObj (Partial (Ref ''Listings.Listing'')))),
     opt ''history'' (TArray (TObj (Partial (Ref ''Listings.Listing''))))] None"

definition Listings_RollingPeriodName :: "string list \<Rightarrow> string list" where
  "Listings_RollingPeriodName Days =
     map (\<lambda>d. ''grp-'' @ d @ ''-days'') Days @ [''grp-day'', ''grp-mth'', ''grp-yr'']"

definition Listings_RollingPeriodName_keys :: "string list" where
  "Listings_RollingPeriodName_keys = Listings_RollingPeriodName [''30'', ''90'', ''365'']"

definition Listings_RollingPeriod :: iface where
  "Listings_RollingPeriod = Interface ''Listings.RollingPeriod'' [] [] (Some (TObj (Lit [
     req ''count'' TNumber,
     opt ''avg'' TNumber,
     opt ''sum'' TNumber,
     opt ''med'' TNumber,
     opt ''min'' TNumber,
     opt ''max'' TNumber,
     opt ''sd'' TNumber] None)))"

definition Listings_ImageSearchItemBase :: iface where
  "Listings_ImageSearchItemBase = Interface ''Listings.ImageSearchItemBase'' [] [
     req ''type'' TString,
     req ''boost'' TNumber] None"

definition Listings_ImageSearchValue :: iface where
  "Listings_ImageSearchValue = Interface ''Listings.ImageSearchValue'' [Extends Listings_ImageSearchItemBase] [
     req ''type'' (TLit ''text''),
     req ''value'' TString] None"

definition Listings_ImageSearchUrl :: iface where
  "Listings_ImageSearchUrl = Interface ''Listings.ImageSearchUrl'' [Extends Listings_ImageSearchItemBase] [
     req ''type'' (TLit ''image''),
     req ''url'' TString] None"

definition Listings_ImageSearchItem :: ty where
  "Listings_ImageSearchItem = TUnion [TObj (Ref ''Listings.ImageSearchValue''), TObj (Ref ''Listings.ImageSearchUrl'')]"

definition Listings_SearchRequest :: iface where
  "Listings_SearchRequest = Interface ''Listings.SearchRequest'' [Extends ApiRequest] [
     opt ''agent'' (TArray TString),
     opt ''aggregates'' (TArray Aggregates),
     opt ''aggregateStatistics'' TBoolean,
     opt ''amenities'' (TArray TString),
     opt ''area'' TString,
     opt ''balcony'' (TArray TString),
     opt ''basement'' (TArray TString),
     opt ''boardId'' (TArray TNumber),
     opt ''brokerage'' TString,
     opt ''businessSubType'' (TArray TString),
     opt ''businessType'' (TArray TString),
     opt ''city'' (TArray TString),
     opt ''class'' (TArray Class),
     opt ''cluster'' TBoolean,
     opt ''clusterFields'' TString,
     opt ''clusterLimit'' TNumber,
     opt ''clusterPrecision'' TNumber,
     opt ''clusterStatistics'' TBoolean,
     opt ''coverImage'' Listings_CoverImage,
     opt ''den'' TString,
     opt ''displayAddressOnInternet'' YesNo,
     opt ''displayInternetEntireListing'' YesNo,
     opt ''displayPublic'' YesNo,
     opt ''district'' (TArray TNumber),
     opt ''driveway'' (TArray TString),
     opt ''exteriorConstruction'' (TArray TString),
     opt ''fields'' TString,
     opt ''garage'' (TArray TString),
     opt ''hasAgents'' TBoolean,
     opt ''hasImages'' TBoolean,
     opt ''heating'' (TArray TString),
     opt ''lastStatus'' (TArray LastStatus),
     opt ''lat'' TString,
     opt ''listDate'' DateFormat,
     opt ''listings'' TBoolean,
     opt ''locker'' (TArray TString),
     opt ''long'' TString,
     opt ''map'' (TArray (TArray (TTuple [TNumber, TNumber]))),
     opt ''mapOperator'' Operator,
     opt ''maxBaths'' TNumber,
     deprecated_opt ''maxBeds'' TNumber ''maxBedrooms'',
     opt ''maxBedrooms'' TNumber,
     deprecated_opt ''maxBedsPlus'' TNumber ''maxBedroomsPlus'',
     opt ''maxBedroomsPlus'' TNumber,
     opt ''maxBedroomsTotal'' TNumber,
     opt ''maxKitchens'' TNumber,
     opt ''maxListDate'' DateFormat,
     opt ''maxMaintenanceFee'' TNumber,
     opt ''maxOpenHouseDate'' DateFormat,
     opt ''maxPrice'' TNumber,
     opt ''maxRepliersUpdatedOn'' DateFormat,
     opt ''maxSoldDate'' DateFormat,
     opt ''maxSoldPrice'' TNumber,
     opt ''maxStreetNumber'' TNumber,
     opt ''maxSqft'' TNumber,
     opt ''maxTaxes'' TNumber,
     opt ''maxUnavailableDate'' DateFormat,
     opt ''maxUpdatedOn'' DateFormat,
     opt ''maxYearBuilt'' TNumber,
     opt ''minBaths'' TNumber,
     deprecated_opt ''minBeds'' TNumber ''minBedrooms'',
     opt ''minBedrooms'' TNumber,
     deprecated_opt ''minBedsPlus'' TNumber ''minBedroomsPlus'',
     opt ''minBedroomsPlus'' TNumber,
     opt ''minBedroomsTotal'' TNumber,
     opt ''minGarageSpaces'' TNumber,
     opt ''minKitchens'' TNumber,
     opt ''minListDate'' DateFormat,
     opt ''minOpenHouseDate'' DateFormat,
     opt ''minParkingSpaces'' TNumber,
     opt ''minPrice'' TNumber,
     opt ''minRepliersUpdatedOn'' DateFormat,
     opt ''minSoldDate'' DateFormat,
     opt ''minSoldPrice'' TString,
     opt ''minSqft'' TNumber,
     opt ''minStreetNumber'' TNumber,
     opt ''minUnavailableDate'' DateFormat,
     opt ''minUpdatedOn'' DateFormat,
     opt ''minYearBuilt'' DateFormat,
     opt ''mlsNumber'' (TArray TString),
     opt ''neighborhood'' (TArray TString),
     opt ''officeId'' TString,
     opt ''operator'' Operator,
     opt ''pageNum'' TNumber,
     opt ''propertyType'' (TArray TString),
     opt ''radius'' TNumber,
     opt ''resultsPerPage'' TNumber,
     opt ''search'' TString,
     opt ''searchFields'' TString,
     opt ''sortBy'' SortBy,
     opt ''sqft'' (TArray TString),
     opt ''statistics'' TString,
     opt ''status'' (TArray Status),
     opt ''streetDirection'' (TArray Listings_StreetDirection),
     opt ''streetName'' TString,
     opt ''streetNumber'' TString,
     opt ''streetSuffix'' TString,
     opt ''style'' (TArray TString),
     opt ''swimmingPool'' (TArray TString),
     opt ''type'' (TArray Type),
     opt ''unitNumber'' (TArray TString),
     opt ''updatedOn'' DateFormat,
     opt ''waterSource'' (TArray TString),
     opt ''repliersUpdatedOn'' TString,
     opt ''sewer'' (TArray TString),
     opt ''state'' TString,
     opt ''waterfront'' YesNo,
     opt ''yearBuilt'' (TArray TString),
     opt ''zip'' TString,
     opt ''zoning'' TString,
     opt ''body'' (TObj (Lit [
        opt ''imageSearchItems'' (TArray Listings_ImageSearchItem)] None))] None"

definition Listings_RangeStat :: ty where
  "Listings_RangeStat = TObj (Omit (Inter (Ref ''Listings.BaseStat'') (Lit [
     req ''count'' TNumber] None)) [''mth'', ''yr''])"

definition Listings_BaseStat :: iface where
  "Listings_BaseStat = Interface ''Listings.BaseStat'' [] [
     opt ''avg'' TNumber,
     opt ''min'' TNumber,
     opt ''max'' TNumber,
     opt ''med'' TNumber,
     opt ''sd'' TNumber,
     opt ''sum'' TNumber,
     opt ''mth'' (TObj (Lit [] (Some Listings_RangeStat))),
     opt ''yr'' (TObj (Lit [] (Some Listings_RangeStat)))] None"

definition Listings_SearchResponse :: iface where
  "Listings_SearchResponse = Interface ''Listings.SearchResponse'' [Extends ApiResponse] [
     req ''page'' TNumber,
     req ''numPages'' TNumber,
     req ''pageSize'' TNumber,
     req ''count'' TNumber,
     req ''listings'' (TArray (TObj (Ref ''Listings.Listing''))),
     req ''statistics'' (TObj (Lit [
        opt ''available'' (TObj (Lit [
           req ''count'' TNumber,
           req ''mth'' (TObj (Lit [] (Some (TObj (Lit [
              req ''count'' TNumber] None))))),
           req ''yr'' (TObj (Lit [] (Some (TObj (Lit [
              req ''count'' TNumber] None)))))] None)),
        opt ''new'' (TObj (Lit [
           req ''count'' TNumber,
           req ''mth'' (TObj (Lit [] (Some (TObj (Lit [
              req ''count'' TNumber] None))))),
           req ''yr'' (TObj (Lit [] (Some (TObj (Lit [
              req ''count'' TNumber] None)))))] None)),
        opt ''closed'' (TObj (Lit [
           req ''count'' TNumber,
           req ''mth'' (TObj (Lit [] (Some (TObj (Lit [
              req ''count'' TNumber] None))))),
           req ''yr'' (TObj (Lit [] (Some (TObj (Lit [
              req ''count'' TNumber] None)))))] None)),
        opt ''soldPrice'' (TObj (Inter (Record_keys Listings_RollingPeriodName_keys (TObj (Ref ''Listings.RollingPeriod''))) (Ref ''Listings.BaseStat''))),
        opt ''listPrice'' (TObj (Inter (Record_keys Listings_RollingPeriodName_keys (TObj (Ref ''Listings.RollingPeriod''))) (Ref ''Listings.BaseStat''))),
        opt ''daysOnMarket'' (TObj (Inter (Record_keys Listings_RollingPeriodName_keys (TObj (Ref ''Listings.RollingPeriod''))) (Ref ''Listings.BaseStat''))),
        opt ''sqft'' (TObj (Lit [
           req ''avgPriceLow'' TNumber,
           req ''avgPriceHigh'' TNumber,
           opt ''mth'' (TObj (Lit [] (Some (TObj (Lit [
              req ''avgPriceLow'' TNumber,
              req ''avgPriceHigh'' TNumber] None)))))] None))] None))] None"

definition Listings_SimilarRequest :: iface where
  "Listings_SimilarRequest = Interface ''Listings.SimilarRequest'' [Extends ApiRequest] [
     opt ''boardId'' (TArray TNumber),
     opt ''listPriceRange'' TNumber,
     opt ''radius'' TNumber,
     opt ''sortBy'' SimilarSortBy,
     req ''propertyId'' TString,
     opt ''fields'' TString] None"

definition Listings_SimilarResponse :: iface where
  "Listings_SimilarResponse = Interface ''Listings.SimilarResponse'' [Extends ApiResponse] [] None"

definition Listings_ListingRequest :: iface where
  "Listings_ListingRequest = Interface ''Listings.ListingRequest'' [Extends ApiRequest] [
     opt ''mlsNumber'' TString,
     opt ''boardId'' TNumber,
     opt ''fields'' TString] None"

definition Listings_ListingResponse :: iface where
  "Listings_ListingResponse = Interface ''Listings.ListingResponse'' [Extends ApiResponse, Extends Listings_Listing] [] None"

definition Listings_LocationsRequest :: iface where
  "Listings_LocationsRequest = Interface ''Listings.LocationsRequest'' [Extends ApiRequest] [
     opt ''area'' TString,
     opt ''city'' TString,
     opt ''neighborhood'' TString,
     req ''class'' (TArray Class),
     opt ''boardId'' TNumber,
     opt ''search'' TString] None"

definition Listings_Location :: iface where
  "Listings_Location = Interface ''Listings.Location'' [] [
     req ''lat'' TNumber,
     req ''lng'' TNumber] None"

definition Listings_LocationCoordinates :: ty where
  "Listings_LocationCoordinates = TUnion [TArray (TArray (TTuple [TNumber, TNumber])), TNull]"

definition Listings_Neighborhood :: iface where
  "Listings_Neighborhood = Interface ''Listings.Neighborhood'' [] [
     req ''name'' TString,
     req ''activeCount'' TNumber,
     req ''location'' (TObj (Ref ''Listings.Location'')),
     req ''coordinates'' (TUnion [Listings_LocationCoordinates, TNull])] None"

definition Listings_City :: iface where
  "Listings_City = Interface ''Listings.City'' [] [
     req ''name'' TString,
     req ''activeCount'' TNumber,
     req ''location'' (TObj (Ref ''Listings.Location'')),
     req ''coordinates'' (TUnion [Listings_LocationCoordinates, TNull]),
     req ''state'' TString,
     req ''neighborhoods'' (TArray (TObj (Ref ''Listings.Neighborhood'')))] None"

definition Listings_Area :: iface where
  "Listings_Area = Interface ''Listings.Area'' [] [
     req ''name'' TString,
     req ''cities'' (TArray (TObj (Ref ''Listings.City'')))] None"

definition Listings_ClassWithAreas :: "ty \<Rightarrow> iface" where
  "Listings_ClassWithAreas Name = Interface ''Listings.ClassWithAreas'' [] [
     req ''name'' Name,
     req ''areas'' (TArray (TObj (Ref ''Listings.Area'')))] None"

definition Listings_Map :: iface where
  "Listings_Map = Interface ''Listings.Map'' [] [
     req ''latitude'' TString,
     req ''longitude'' TString,
     req ''point'' TString] None"

definition Listings_LocationsResponse :: iface where
  "Listings_LocationsResponse = Interface ''Listings.LocationsResponse'' [Extends ApiResponse] [
     req ''boards'' (TTuple [TObj (Lit [
        req ''boardId'' TNumber,
        req ''name'' TString,
        req ''updatedOn'' TString,
        req ''classes'' (TTuple [TObj (inline (Listings_ClassWithAreas (TLit ''condo''))), TObj (inline (Listings_ClassWithAreas (TLit ''residential''))), TObj (inline (Listings_ClassWithAreas (TLit ''commercial'')))])] None)])] None"

definition Listings_NlpRequest :: iface where
  "Listings_NlpRequest = Interface ''Listings.NlpRequest'' [Extends ApiRequest] [] None"

definition Listings_NlpResponse :: iface where
  "Listings_NlpResponse = Interface ''Listings.NlpResponse'' [Extends ApiResponse] [
     req ''request'' (TObj (Lit [
        opt ''url'' TString,
        opt ''params'' (TObj (Lit [] (Some TString))),
        req ''body'' (TObj (Lit [] (Some TUnknown))),
        req ''summary'' TString] None)),
     req ''nlpId'' TString] None"

subsection \<open>The Searches group (searches.ts)\<close>

definition Searches_CreateRequest :: iface where
  "Searches_CreateRequest = Interface ''Searches.CreateRequest'' [Extends ApiRequest] [
     req ''clientId'' TNumber,
     opt ''name'' TString,
     opt ''streetNumbers'' (TArray TString),
     opt ''streetNames'' (TArray TString),
     opt ''minBeds'' TNumber,
     opt ''maxBeds'' TNumber,
     opt ''maxMaintenanceFee'' TNumber,
     opt ''minBaths'' TNumber,
     opt ''maxBaths'' TNumber,
     opt ''areas'' (TArray TString),
     opt ''cities'' (TArray TString),
     opt ''neighborhoods'' (TArray TString),
     opt ''notificationFrequency'' (TUnion [TLit ''instant'', TLit ''daily'', TLit ''weekly'', TLit ''monthly'']),
     req ''minPrice'' TNumber,
     req ''maxPrice'' TNumber,
     opt ''propertyTypes'' (TArray TString),
     opt ''styles'' (TArray TString),
     opt ''map'' TString,
     opt ''status'' TBoolean,
     req ''type'' Type,
     opt ''class'' (TArray Class),
     opt ''minGarageSpaces'' TNumber,
     opt ''minKitchens'' TNumber,
     opt ''minParkingSpaces'' TNumber,
     opt ''basement'' (TArray TString),
     opt ''soldNotifications'' TBoolean,
     opt ''priceChangeNotifications'' TBoolean,
     opt ''sewer'' (TArray TString),
     opt ''waterSource'' (TArray TString),
     opt ''heating'' (TArray TString),
     opt ''swimmingPool'' (TArray TString)] None"

definition Searches_CreateResponse :: iface where
  "Searches_CreateResponse = Interface ''Searches.CreateResponse'' [Extends ApiResponse, ExtendsOmit Searches_CreateRequest [''class'']] [
     req ''searchId'' TNumber,
     req ''agentId'' TNumber,
     req ''client'' (TObj (Pick (Ref ''Clients.Client'') [''fname'', ''lname'', ''email'', ''phone'']))] None"

definition Searches_UpdateRequest :: iface where
  "Searches_UpdateRequest = Interface ''Searches.UpdateRequest'' [Extends ApiRequest] [
     req ''searchId'' TNumber] None"

definition Searches_UpdateResponse :: iface where
  "Searches_UpdateResponse = Interface ''Searches.UpdateResponse'' [Extends ApiResponse] [] None"

definition Searches_FilterRequest :: iface where
  "Searches_FilterRequest = Interface ''Searches.FilterRequest'' [Extends ApiRequest] [
     req ''clientId'' TNumber] None"

definition Searches_FilterResponse :: iface where
  "Searches_FilterResponse = Interface ''Searches.FilterResponse'' [Extends ApiResponse] [
     req ''page'' TNumber,
     req ''numPages'' TNumber,
     req ''pageSize'' TNumber,
     req ''count'' TNumber,
     req ''searches'' (TArray (TObj (Ref ''Searches.CreateResponse'')))] None"

definition Searches_DeleteRequest :: iface where
  "Searches_DeleteRequest = Interface ''Searches.DeleteRequest'' [Extends ApiRequest] [
     req ''searchId'' TNumber] None"

definition Searches_DeleteResponse :: iface where
  "Searches_DeleteResponse = Interface ''Searches.DeleteResponse'' [Extends ApiResponse] [] None"

definition Searches_GetRequest :: iface where
  "Searches_GetRequest = Interface ''Searches.GetRequest'' [Extends ApiRequest] [
     req ''searchId'' TNumber] None"

definition Searches_GetResponse :: iface where
  "Searches_GetResponse = Interface ''Searches.GetResponse'' [Extends ApiResponse] [
     req ''client'' (TObj (Lit [] (Some TUnknown)))] None"

subsection \<open>The Clients group (clients.ts)\<close>

definition Clients_Client :: iface where
  "Clients_Client = Interface ''Clients.Client'' [] [
     req ''clientId'' TNumber,
     req ''agentId'' TNumber,
     req ''fname'' TString,
     req ''lname'' TString,
     req ''phone'' TString,
     req ''email'' TString,
     req ''proxyEmail'' TString,
     req ''status'' TBoolean,
     req ''lastActivity'' (TUnion [TNull, TUnknown]),
     req ''tags'' TString,
     req ''preferences'' (TObj (Lit [
        req ''email'' TBoolean,
        req ''sms'' TBoolean,
        req ''unsubscribe'' TBoolean,
        req ''whatsapp'' TBoolean] None)),
     req ''expiryDate'' (TUnion [TNull, TUnknown]),
     opt ''searches'' (TInter [TObj (Omit (Ref ''Searches.CreateResponse'') [''class'']), TArray (TObj (Lit [
        opt ''classes'' (TArray Class)] None))]),
     req ''createdOn'' TString,
     opt ''estimates'' (TArray (TObj (Ref ''Estimate.Estimate''))),
     req ''externalId'' (TUnion [TString, TNull])] None"

definition Clients_CreateRequest :: iface where
  "Clients_CreateRequest = Interface ''Clients.CreateRequest'' [Extends ApiRequest] [
     opt ''agentId'' TNumber,
     opt ''clientId'' TNumber,
     opt ''email'' TString,
     opt ''fname'' TString,
     opt ''lname'' TString,
     opt ''keywords'' TString,
     opt ''phone'' TNumber,
     opt ''status'' TBoolean,
     opt ''conditions'' (TUnion [TLit ''EXACT'', TLit ''CONTAINS'']),
     opt ''operator'' (TUnion [TLit ''AND'', TLit ''OR'']),
     opt ''pageNum'' TNumber,
     opt ''resultsPerPage'' TNumber,
     opt ''tags'' (TArray TString),
     opt ''showSavedSearches'' TBoolean,
     opt ''externalId'' TString] None"

definition Clients_CreateResponse :: iface where
  "Clients_CreateResponse = Interface ''Clients.CreateResponse'' [Extends ApiResponse, Extends Clients_Client] [] None"

definition Clients_UpdateRequest :: iface where
  "Clients_UpdateRequest = Interface ''Clients.UpdateRequest'' [Extends Clients_CreateRequest, Extends ApiRequest] [
     req ''clientId'' TNumber] None"

definition Clients_UpdateResponse :: iface where
  "Clients_UpdateResponse = Interface ''Clients.UpdateResponse'' [Extends ApiResponse, Extends Clients_Client] [] None"

definition Clients_DeleteResponse :: iface where
  "Clients_DeleteResponse = Interface ''Clients.DeleteResponse'' [Extends ApiResponse] [] None"

definition Clients_GetResponse :: iface where
  "Clients_GetResponse = Interface ''Clients.GetResponse'' [Extends ApiResponse, Extends Clients_Client] [] None"

definition Clients_FilterRequest :: iface where
  "Clients_FilterRequest = Interface ''Clients.FilterRequest'' [Extends ApiRequest] [
     opt ''agentId'' TNumber,
     opt ''clientId'' TNumber,
     req ''email'' (TUnion [TString, TUndefined]),
     opt ''fname'' TString,
     opt ''keywords'' TString,
     opt ''lname'' TString,
     opt ''phone'' (TUnion [TString, TUndefined]),
     opt ''status'' TBoolean,
     opt ''condition'' (TUnion [TLit ''EXACT'', TLit ''CONTAINS'']),
     opt ''operator'' Operator,
     opt ''pageNum'' TNumber,
     opt ''resultsPerPage'' TNumber,
     opt ''tags'' TString] None"

definition Clients_FilterResponse :: iface where
  "Clients_FilterResponse = Interface ''Clients.FilterResponse'' [Extends ApiResponse] [
     req ''page'' TNumber,
     req ''numPages'' TNumber,
     req ''pageSize'' TNumber,
     req ''count'' TNumber,
     req ''clients'' (TArray (TObj (Ref ''Clients.Client'')))] None"

definition Clients_GetTagsResponse :: iface where
  "Clients_GetTagsResponse = Interface ''Clients.GetTagsResponse'' [Extends ApiResponse] [] None"

definition Clients_RenameTagRequest :: iface where
  "Clients_RenameTagRequest = Interface ''Clients.RenameTagRequest'' [Extends ApiRequest] [
     req ''tag'' TString,
     req ''label'' TString] None"

definition Clients_RenameTagResponse :: iface where
  "Clients_RenameTagResponse = Interface ''Clients.RenameTagResponse'' [Extends ApiResponse] [] None"

subsection \<open>The Favorites group (favorites.ts)\<close>

definition Favorites_AddRequest :: iface where
  "Favorites_AddRequest = Interface ''Favorites.AddRequest'' [Extends ApiRequest] [
     req ''clientId'' TNumber,
     req ''mlsNumber'' TString,
     opt ''boardId'' TNumber] None"

definition Favorites_AddResponse :: iface where
  "Favorites_AddResponse = Interface ''Favorites.AddResponse'' [Extends ApiResponse] [] None"

definition Favorites_DeleteRequest :: iface where
  "Favorites_DeleteRequest = Interface ''Favorites.DeleteRequest'' [Extends ApiRequest] [
     req ''favoriteId'' TNumber] None"

definition Favorites_DeleteResponse :: iface where
  "Favorites_DeleteResponse = Interface ''Favorites.DeleteResponse'' [Extends ApiResponse] [] None"

definition Favorites_GetRequest :: iface where
  "Favorites_GetRequest = Interface ''Favorites.GetRequest'' [Extends ApiRequest] [
     req ''clientId'' TNumber] None"

definition Favorites_GetResponse :: iface where
  "Favorites_GetResponse = Interface ''Favorites.GetResponse'' [Extends ApiResponse] [
     req ''page'' TNumber,
     req ''numPages'' TNumber,
     req ''pageSize'' TNumber,
     req ''count'' TNumber,
     req ''favorites'' (TArray (TObj (Lit [
        req ''favoriteId'' TNumber] (Some TUnknown))))] None"

subsection \<open>The Messages group (messages.ts)\<close>

definition Messages_SendRequest :: iface where
  "Messages_SendRequest = Interface ''Messages.SendRequest'' [Extends ApiRequest] [
     req ''sender'' (TUnion [TLit ''agent'', TLit ''client'']),
     req ''agentId'' TNumber,
     req ''clientId'' TNumber,
     req ''content'' (TObj (Partial (Lit [
        req ''listings'' (TArray TString),
        req ''searches'' (TArray TNumber),
        req ''message'' TString,
        req ''links'' (TArray TString),
        req ''pictures'' (TArray TString)] None)))] None"

definition Messages_SendResponse :: iface where
  "Messages_SendResponse = Interface ''Messages.SendResponse'' [Extends ApiResponse] [] None"

section \<open>The catalogue\<close>

text \<open>Every declared interface under its qualified name; \<open>decl\<close> resolves a reference.\<close>

definition catalog :: "(string \<times> iface) list" where
  "catalog = [
     (''ApiRequest'', ApiRequest),
     (''ApiResponse'', ApiResponse),
     (''ApiRequestBody'', ApiRequestBody),
     (''Estimate.Estimate'', Estimate_Estimate),
     (''Estimate.AddCondominium'', Estimate_AddCondominium),
     (''Estimate.AddRequest'', Estimate_AddRequest),
     (''Estimate.AddResponse'', Estimate_AddResponse),
     (''Estimate.GetRequest'', Estimate_GetRequest),
     (''Estimate.GetResponse'', Estimate_GetResponse),
     (''Estimate.DeleteRequest'', Estimate_DeleteRequest),
     (''Estimate.DeleteResponse'', Estimate_DeleteResponse),
     (''Estimate.PatchRequest'', Estimate_PatchRequest),
     (''Estimate.PatchResponse'', Estimate_PatchResponse),
     (''Listings.Room'', Listings_Room),
     (''Listings.Bathroom'', Listings_Bathroom),
     (''Listings.Timestamp'', Listings_Timestamp),
     (''Listings.Condominium'', Listings_Condominium),
     (''Listings.OpenHouse'', Listings_OpenHouse),
     (''Listings.Details'', Listings_Details),
     (''Listings.Address'', Listings_Address),
     (''Listings.Listing'', Listings_Listing),
     (''Listings.RollingPeriod'', Listings_RollingPeriod),
     (''Listings.ImageSearchItemBase'', Listings_ImageSearchItemBase),
     (''Listings.ImageSearchValue'', Listings_ImageSearchValue),
     (''Listings.ImageSearchUrl'', Listings_ImageSearchUrl),
     (''Listings.SearchRequest'', Listings_SearchRequest),
     (''Listings.BaseStat'', Listings_BaseStat),
     (''Listings.SearchResponse'', Listings_SearchResponse),
     (''Listings.SimilarRequest'', Listings_SimilarRequest),
     (''Listings.SimilarResponse'', Listings_SimilarResponse),
     (''Listings.ListingRequest'', Listings_ListingRequest),
     (''Listings.ListingResponse'', Listings_ListingResponse),
     (''Listings.LocationsRequest'', Listings_LocationsRequest),
     (''Listings.Location'', Listings_Location),
     (''Listings.Neighborhood'', Listings_Neighborhood),
     (''Listings.City'', Listings_City),
     (''Listings.Area'', Listings_Area),
     (''Listings.Map'', Listings_Map),
     (''Listings.LocationsResponse'', Listings_LocationsResponse),
     (''Listings.NlpRequest'', Listings_NlpRequest),
     (''Listings.NlpResponse'', Listings_NlpResponse),
     (''Searches.CreateRequest'', Searches_CreateRequest),
     (''Searches.CreateResponse'', Searches_CreateResponse),
     (''Searches.UpdateRequest'', Searches_UpdateRequest),
     (''Searches.UpdateResponse'', Searches_UpdateResponse),
     (''Searches.FilterRequest'', Searches_FilterRequest),
     (''Searches.FilterResponse'', Searches_FilterResponse),
     (''Searches.DeleteRequest'', Searches_DeleteRequest),
     (''Searches.DeleteResponse'', Searches_DeleteResponse),
     (''Searches.GetRequest'', Searches_GetRequest),
     (''Searches.GetResponse'', Searches_GetResponse),
     (''Clients.Client'', Clients_Client),
     (''Clients.CreateRequest'', Clients_CreateRequest),
     (''Clients.CreateResponse'', Clients_CreateResponse),
     (''Clients.UpdateRequest'', Clients_UpdateRequest),
     (''Clients.UpdateResponse'', Clients_UpdateResponse),
     (''Clients.DeleteResponse'', Clients_DeleteResponse),
     (''Clients.GetResponse'', Clients_GetResponse),
     (''Clients.FilterRequest'', Clients_FilterRequest),
     (''Clients.FilterResponse'', Clients_FilterResponse),
     (''Clients.GetTagsResponse'', Clients_GetTagsResponse),
     (''Clients.RenameTagRequest'', Clients_RenameTagRequest),
     (''Clients.RenameTagResponse'', Clients_RenameTagResponse),
     (''Favorites.AddRequest'', Favorites_AddRequest),
     (''Favorites.AddResponse'', Favorites_AddResponse),
     (''Favorites.DeleteRequest'', Favorites_DeleteRequest),
     (''Favorites.DeleteResponse'', Favorites_DeleteResponse),
     (''Favorites.GetRequest'', Favorites_GetRequest),
     (''Favorites.GetResponse'', Favorites_GetResponse),
     (''Messages.SendRequest'', Messages_SendRequest),
     (''Messages.SendResponse'', Messages_SendResponse)]"

definition decl :: "string \<Rightarrow> iface option" where
  "decl = map_of catalog"

text \<open>A payload is accepted by an interface when it conforms to the shape the interface resolves to.\<close>

definition accepts :: "iface \<Rightarrow> json \<Rightarrow> bool" where
  "accepts i v = conforms decl (TObj (inline i)) v"

section \<open>Heritage and deprecation\<close>

text \<open>
  The interfaces an interface is declared from: those named in its \<open>extends\<close> clause
  (directly or under \<open>Omit\<close>), and theirs in turn.
\<close>

fun ancestors :: "iface \<Rightarrow> string list"
and clause_ancestors :: "hclause \<Rightarrow> string list" where
  "ancestors (Interface n hs ms idx) = concat (map clause_ancestors hs)"
| "clause_ancestors (Extends i) = iname i # ancestors i"
| "clause_ancestors (ExtendsOmit i ks) = iname i # ancestors i"
| "clause_ancestors (ExtendsRecord t) = []"

text \<open>The members of a body tagged \<open>@deprecated use X field instead\<close>, each with its \<open>X\<close>.\<close>

definition deprecated_aliases :: "iface \<Rightarrow> (string \<times> string) list" where
  "deprecated_aliases i =
     concat (map (\<lambda>m. case replaced_by m of None \<Rightarrow> [] | Some r \<Rightarrow> [(mname m, r)]) (body i))"

section \<open>Decoding and encoding\<close>

text \<open>
  Modelled from the spec: the decoder and the encoder of payloads, which the repository
  does not have (it declares shapes only). Section 9 of the specification describes
  them: a decoded value is the known fields together with a sidecar of the
  unrecognized key and raw value pairs, merged back on re-encoding; section 3 has a
  closed shape reject unknown fields. Which fields are known and whether a field that
  is not known is admitted is decided by the declared shape: a payload decodes when
  the interface accepts it.
\<close>

type_synonym decoded = "(string \<times> json) list \<times> (string \<times> json) list"

definition decode :: "iface \<Rightarrow> json \<Rightarrow> decoded option" where
  "decode i v =
     (case v of
        JObject fs \<Rightarrow>
          if accepts i v
          then Some (filter (\<lambda>kx. find_member (fst (flatten i)) (fst kx) \<noteq> None) fs,
                     filter (\<lambda>kx. find_member (fst (flatten i)) (fst kx) = None) fs)
          else None
      | _ \<Rightarrow> None)"

definition encode :: "decoded \<Rightarrow> json" where
  "encode d = JObject (fst d @ snd d)"

section \<open>The constraints of a request\<close>

text \<open>
  Modelled from the spec: what a request means to a consumer, which the repository does
  not have. Section 8 of the specification has a consumer treat a request that uses a
  deprecated name identically to the request that uses the new name: a member stands
  for the constraint of its value on the field that its \<open>@deprecated\<close> tag says to use,
  or on its own field when it has no tag, and a request means the set of the
  constraints of its members.
\<close>

definition canonical_name :: "iface \<Rightarrow> string \<Rightarrow> string" where
  "canonical_name i k = (case map_of (deprecated_aliases i) k of Some n \<Rightarrow> n | None \<Rightarrow> k)"

definition constraints :: "iface \<Rightarrow> json \<Rightarrow> (string \<times> json) set" where
  "constraints i v =
     (case v of
        JObject fs \<Rightarrow> set (map (\<lambda>kx. (canonical_name i (fst kx), snd kx)) fs)
      | _ \<Rightarrow> {})"

section \<open>The request and response shapes\<close>

text \<open>The concrete request shapes and the concrete response shapes of the six groups.\<close>

definition request_shapes :: "iface list" where
  "request_shapes = [
     Estimate_AddRequest,
     Estimate_GetRequest,
     Estimate_DeleteRequest,
     Estimate_PatchRequest,
     Listings_SearchRequest,
     Listings_SimilarRequest,
     Listings_ListingRequest,
     Listings_LocationsRequest,
     Listings_NlpRequest,
     Searches_CreateRequest,
     Searches_UpdateRequest,
     Searches_FilterRequest,
     Searches_DeleteRequest,
     Searches_GetRequest,
     Clients_CreateRequest,
     Clients_UpdateRequest,
     Clients_FilterRequest,
     Clients_RenameTagRequest,
     Favorites_AddRequest,
     Favorites_DeleteRequest,
     Favorites_GetRequest,
     Messages_SendRequest]"

definition response_shapes :: "iface list" where
  "response_shapes = [
     Estimate_AddResponse,
     Estimate_GetResponse,
     Estimate_DeleteResponse,
     Estimate_PatchResponse,
     Listings_SearchResponse,
     Listings_SimilarResponse,
     Listings_ListingResponse,
     Listings_LocationsResponse,
     Listings_NlpResponse,
     Searches_CreateResponse,
     Searches_UpdateResponse,
     Searches_FilterResponse,
     Searches_DeleteResponse,
     Searches_GetResponse,
     Clients_CreateResponse,
     Clients_UpdateResponse,
     Clients_DeleteResponse,
     Clients_GetResponse,
     Clients_FilterResponse,
     Clients_GetTagsResponse,
     Clients_RenameTagResponse,
     Favorites_AddResponse,
     Favorites_DeleteResponse,
     Favorites_GetResponse,
     Messages_SendResponse]"

section \<open>Properties\<close>

lemma find_member_None_iff: "find_member ms k = None \<longleftrightarrow> k \<notin> set (map mname ms)"
  by (induction ms) auto

lemma find_member_Some_name: "find_member ms k = Some m \<Longrightarrow> mname m = k \<and> m \<in> set ms"
  by (induction ms) (auto split: if_splits)

lemma shape_of_inline: "shape_of D (inline i) = Some (flatten i)"
  by (simp add: inline_def)

lemma accepts_object:
  "accepts i (JObject fs) \<longleftrightarrow>
     distinct (map fst fs)
   \<and> set (required_names (flatten i)) \<subseteq> set (map fst fs)
   \<and> (\<forall>kx \<in> set fs. case field_type (flatten i) (fst kx) of
                        None \<Rightarrow> False
                      | Some t \<Rightarrow> conforms decl t (snd kx))"
  by (simp add: accepts_def shape_of_inline)

lemma conforms_values_type:
  "conforms D (values_type xs) v \<longleftrightarrow> (\<exists>s \<in> set xs. v = JString s)"
  by (simp add: values_type_def)

lemma accepts_single_number_field:
  assumes "required_names (flatten i) = []" and "field_type (flatten i) k = Some TNumber"
  shows "accepts i (JObject [(k, x)]) \<longleftrightarrow> (\<exists>n. x = JNumber n)"
  using assms by (cases x) (simp_all add: accepts_object)

lemma decl_Listing: "decl ''Listings.Listing'' = Some Listings_Listing"
  by (simp add: decl_def catalog_def)

lemma conforms_ref: "decl n = Some i \<Longrightarrow> conforms decl (TObj (Ref n)) v = accepts i v"
  by (cases v) (simp_all add: accepts_def shape_of_inline)

lemma conforms_object_required:
  "conforms D (TObj (Lit ms idx)) d \<Longrightarrow>
     \<exists>ds. d = JObject ds \<and> set (required_names (ms, idx)) \<subseteq> set (map fst ds)"
  by (cases d) auto

lemma accepts_field_conforms:
  assumes "accepts i (JObject fs)" and "map_of fs k = Some d" and "field_type (flatten i) k = Some t"
  shows "conforms decl t d"
proof -
  from assms(2) have "(k, d) \<in> set fs" by (rule map_of_SomeD)
  moreover from assms(1) have
    "\<forall>kx \<in> set fs. case field_type (flatten i) (fst kx) of
                        None \<Rightarrow> False
                      | Some t \<Rightarrow> conforms decl t (snd kx)"
    by (simp add: accepts_object)
  ultimately have "case field_type (flatten i) (fst (k, d)) of
                     None \<Rightarrow> False
                   | Some t \<Rightarrow> conforms decl t (snd (k, d))"
    by blast
  with assms(3) show ?thesis by simp
qed

lemma accepts_unknown_field:
  assumes "snd (flatten i) = Some TUnknown" and "accepts i (JObject fs)"
      and "u \<notin> set (map fst fs)" and "u \<notin> set (declared_names i)"
  shows "accepts i (JObject (fs @ [(u, x)]))"
proof -
  from assms(4) have "find_member (fst (flatten i)) u = None"
    by (simp add: find_member_None_iff declared_names_def)
  with assms(1) have "field_type (flatten i) u = Some TUnknown"
    by (simp add: field_type_def)
  with assms(2,3) show ?thesis
    by (auto simp: accepts_object)
qed

lemma accepts_recognized_and_unknown:
  assumes "required_names (flatten i) = []" and "snd (flatten i) = Some TUnknown"
      and "find_member (fst (flatten i)) k = Some m" and "conforms decl (mtype m) v"
      and "u \<notin> set (declared_names i)"
  shows "accepts i (JObject [(k, v), (u, x)])"
proof -
  from assms(3) have "k \<in> set (declared_names i)"
    using find_member_None_iff[of "fst (flatten i)" k] by (simp add: declared_names_def)
  with assms(5) have "k \<noteq> u" by auto
  moreover from assms(5) have "find_member (fst (flatten i)) u = None"
    by (simp add: find_member_None_iff declared_names_def)
  ultimately show ?thesis
    using assms(1-4) by (simp add: accepts_object field_type_def)
qed

lemma closed_shape_keys:
  assumes "snd (flatten j) = None" and "accepts j (JObject fs)"
  shows "set (map fst fs) \<subseteq> set (declared_names j)"
proof
  fix k assume "k \<in> set (map fst fs)"
  then obtain kx where kx: "kx \<in> set fs" "fst kx = k" by auto
  with assms(2) have "field_type (flatten j) k \<noteq> None"
    by (auto simp: accepts_object split: option.splits)
  with assms(1) have "find_member (fst (flatten j)) k \<noteq> None"
    by (auto simp: field_type_def split: option.splits)
  then show "k \<in> set (declared_names j)"
    by (simp add: find_member_None_iff declared_names_def)
qed

lemma Listing_open: "required_names (flatten Listings_Listing) = [] \<and> snd (flatten Listings_Listing) = Some TUnknown"
  by (simp add: Listings_Listing_def required_names_def extend_shape_def)

lemma Details_open: "required_names (flatten Listings_Details) = [] \<and> snd (flatten Listings_Details) = Some TUnknown"
  by (simp add: Listings_Details_def required_names_def extend_shape_def)

lemma Room_closed: "snd (flatten Listings_Room) = None"
  by (simp add: Listings_Room_def extend_shape_def)
lemma Map_closed: "snd (flatten Listings_Map) = None"
  by (simp add: Listings_Map_def extend_shape_def)
lemma Timestamp_closed: "snd (flatten Listings_Timestamp) = None"
  by (simp add: Listings_Timestamp_def extend_shape_def)

lemma decode_accepted:
  "accepts i (JObject fs) \<Longrightarrow>
     decode i (JObject fs) =
       Some (filter (\<lambda>kx. find_member (fst (flatten i)) (fst kx) \<noteq> None) fs,
             filter (\<lambda>kx. find_member (fst (flatten i)) (fst kx) = None) fs)"
  by (simp add: decode_def)

lemma decode_refused: "\<not> accepts i (JObject fs) \<Longrightarrow> decode i (JObject fs) = None"
  by (simp add: decode_def)

lemma Listing_members:
  "heritage Listings_Listing = [ExtendsRecord TUnknown]"
  "length (declared_names Listings_Listing) = 35"
  "find_member (fst (flatten Listings_Listing)) ''mlsNumber'' = Some (opt ''mlsNumber'' TString)"
  by (simp_all add: Listings_Listing_def declared_names_def extend_shape_def)

lemma Details_members:
  "heritage Listings_Details = [ExtendsRecord TUnknown]"
  "length (declared_names Listings_Details) = 80"
  "find_member (fst (flatten Listings_Details)) ''numBedrooms''
     = Some (opt ''numBedrooms'' (TUnion [TString, TNull]))"
  by (simp_all add: Listings_Details_def declared_names_def extend_shape_def)

lemma closed_names:
  "declared_names Listings_Room =
     [''description'', ''features'', ''features2'', ''features3'', ''length'', ''width'', ''level'']"
  "declared_names Listings_Map = [''latitude'', ''longitude'', ''point'']"
  "declared_names Listings_Timestamp =
     [''idxUpdated'', ''listingUpdated'', ''photosUpdated'', ''conditionalExpiryDate'',
      ''terminatedDate'', ''suspendedDate'', ''listingEntryDate'', ''closedDate'',
      ''unavailableDate'', ''expiryDate'', ''extensionEntryDate'', ''possessionDate'',
      ''repliersUpdatedOn'']"
  by (simp_all add: Listings_Room_def Listings_Map_def Listings_Timestamp_def declared_names_def
      extend_shape_def)

text \<open>
  Claim C1. \<open>Listing\<close> (35 fields) and \<open>Details\<close> (80 fields) extend
  \<open>Record<string, unknown>\<close>. A payload with one recognized field (holding a value of
  its declared type) and one unrecognized field is accepted, the unrecognized field
  typed \<open>unknown\<close> by the index signature; it decodes to the recognized field and a
  sidecar holding the unrecognized field with its value, and re-encoding gives the
  payload back. Every accepted payload of the two shapes decodes, and re-encoding
  gives its members back. \<open>Room\<close>, \<open>Map\<close> and \<open>Timestamp\<close> have the declared field
  names listed and no index signature: a payload they accept has declared field
  names only, and a payload with any other field is refused and does not decode.
\<close>

theorem C1_extensible_and_closed:
  "heritage Listings_Listing = [ExtendsRecord TUnknown]
 \<and> heritage Listings_Details = [ExtendsRecord TUnknown]
 \<and> length (declared_names Listings_Listing) = 35
 \<and> length (declared_names Listings_Details) = 80
 \<and> find_member (fst (flatten Listings_Listing)) ''mlsNumber'' = Some (opt ''mlsNumber'' TString)
 \<and> find_member (fst (flatten Listings_Details)) ''numBedrooms''
     = Some (opt ''numBedrooms'' (TUnion [TString, TNull]))
 \<and> ((i = Listings_Listing \<or> i = Listings_Details)
      \<and> find_member (fst (flatten i)) k = Some m \<and> conforms decl (mtype m) v
      \<and> u \<notin> set (declared_names i)
    \<longrightarrow> accepts i (JObject [(k, v), (u, x)])
        \<and> field_type (flatten i) u = Some TUnknown
        \<and> decode i (JObject [(k, v), (u, x)]) = Some ([(k, v)], [(u, x)])
        \<and> encode ([(k, v)], [(u, x)]) = JObject [(k, v), (u, x)])
 \<and> ((i = Listings_Listing \<or> i = Listings_Details) \<and> accepts i (JObject fs)
    \<longrightarrow> (\<exists>d gs. decode i (JObject fs) = Some d \<and> encode d = JObject gs \<and> set gs = set fs))
 \<and> declared_names Listings_Room =
     [''description'', ''features'', ''features2'', ''features3'', ''length'', ''width'', ''level'']
 \<and> declared_names Listings_Map = [''latitude'', ''longitude'', ''point'']
 \<and> declared_names Listings_Timestamp =
     [''idxUpdated'', ''listingUpdated'', ''photosUpdated'', ''conditionalExpiryDate'',
      ''terminatedDate'', ''suspendedDate'', ''listingEntryDate'', ''closedDate'',
      ''unavailableDate'', ''expiryDate'', ''extensionEntryDate'', ''possessionDate'',
      ''repliersUpdatedOn'']
 \<and> ((j = Listings_Room \<or> j = Listings_Map \<or> j = Listings_Timestamp)
      \<and> accepts j (JObject hs)
    \<longrightarrow> set (map fst hs) \<subseteq> set (declared_names j))
 \<and> ((j = Listings_Room \<or> j = Listings_Map \<or> j = Listings_Timestamp)
      \<and> w \<in> set (map fst hs) \<and> w \<notin> set (declared_names j)
    \<longrightarrow> \<not> accepts j (JObject hs) \<and> decode j (JObject hs) = None)"
proof -
  have ext: "accepts i (JObject [(k, v), (u, x)])
        \<and> field_type (flatten i) u = Some TUnknown
        \<and> decode i (JObject [(k, v), (u, x)]) = Some ([(k, v)], [(u, x)])
        \<and> encode ([(k, v)], [(u, x)]) = JObject [(k, v), (u, x)]"
    if a: "(i = Listings_Listing \<or> i = Listings_Details)
      \<and> find_member (fst (flatten i)) k = Some m \<and> conforms decl (mtype m) v
      \<and> u \<notin> set (declared_names i)"
  proof -
    from a have op: "required_names (flatten i) = []" "snd (flatten i) = Some TUnknown"
      using Listing_open Details_open by auto
    from a have acc: "accepts i (JObject [(k, v), (u, x)])"
      using accepts_recognized_and_unknown[OF op] by blast
    from a have nf: "find_member (fst (flatten i)) u = None"
      by (simp add: find_member_None_iff declared_names_def)
    with op have ft: "field_type (flatten i) u = Some TUnknown"
      by (simp add: field_type_def)
    from a have kf: "find_member (fst (flatten i)) k = Some m" by simp
    have "decode i (JObject [(k, v), (u, x)]) = Some ([(k, v)], [(u, x)])"
      by (simp add: decode_accepted[OF acc] nf kf)
    moreover have "encode ([(k, v)], [(u, x)]) = JObject [(k, v), (u, x)]"
      by (simp add: encode_def)
    ultimately show ?thesis using acc ft by simp
  qed
  have rt: "\<exists>d gs. decode i (JObject fs) = Some d \<and> encode d = JObject gs \<and> set gs = set fs"
    if b: "(i = Listings_Listing \<or> i = Listings_Details) \<and> accepts i (JObject fs)"
  proof -
    let ?P = "\<lambda>kx. find_member (fst (flatten i)) (fst kx) \<noteq> None"
    let ?Q = "\<lambda>kx. find_member (fst (flatten i)) (fst kx) = None"
    from b have "decode i (JObject fs) = Some (filter ?P fs, filter ?Q fs)"
      by (simp add: decode_accepted)
    moreover have "encode (filter ?P fs, filter ?Q fs) = JObject (filter ?P fs @ filter ?Q fs)"
      by (simp add: encode_def)
    moreover have "set (filter ?P fs @ filter ?Q fs) = set fs" by auto
    ultimately show ?thesis by blast
  qed
  have cl: "set (map fst hs) \<subseteq> set (declared_names j)"
    if c: "(j = Listings_Room \<or> j = Listings_Map \<or> j = Listings_Timestamp)
      \<and> accepts j (JObject hs)" for hs
  proof -
    from c have "snd (flatten j) = None"
      using Room_closed Map_closed Timestamp_closed by auto
    with c show ?thesis using closed_shape_keys by blast
  qed
  have rj: "\<not> accepts j (JObject hs) \<and> decode j (JObject hs) = None"
    if d: "(j = Listings_Room \<or> j = Listings_Map \<or> j = Listings_Timestamp)
      \<and> w \<in> set (map fst hs) \<and> w \<notin> set (declared_names j)"
  proof -
    have "\<not> accepts j (JObject hs)"
    proof
      assume "accepts j (JObject hs)"
      with d have "set (map fst hs) \<subseteq> set (declared_names j)" using cl by blast
      with d show False by blast
    qed
    then show ?thesis by (simp add: decode_refused)
  qed
  show ?thesis
    using Listing_members Details_members closed_names ext rt cl rj by blast
qed

text \<open>
  The scenario payload of the specification with a provider field added, a details
  block with a provider field, a room, and a room with a provider field.
\<close>

theorem C1_extensible_and_closed_witness:
  "decode Listings_Listing
     (JObject [(''mlsNumber'', JString ''HMS1234567''), (''providerTag'', JNumber 42)])
     = Some ([(''mlsNumber'', JString ''HMS1234567'')], [(''providerTag'', JNumber 42)])
 \<and> decode Listings_Details
     (JObject [(''numBedrooms'', JString ''3''), (''providerTag'', JNumber 42)])
     = Some ([(''numBedrooms'', JString ''3'')], [(''providerTag'', JNumber 42)])
 \<and> encode ([(''numBedrooms'', JString ''3'')], [(''providerTag'', JNumber 42)])
     = JObject [(''numBedrooms'', JString ''3''), (''providerTag'', JNumber 42)]
 \<and> accepts Listings_Room (JObject [(''description'', JString ''Kitchen'')])
 \<and> set (map fst [(''description'', JString ''Kitchen'')]) \<subseteq> set (declared_names Listings_Room)
 \<and> decode Listings_Room
     (JObject [(''description'', JString ''Kitchen''), (''providerTag'', JNumber 42)]) = None
 \<and> (\<exists>d gs. decode Listings_Listing
               (JObject [(''mlsNumber'', JString ''HMS1234567''), (''providerTag'', JNumber 42)])
             = Some d
           \<and> encode d = JObject gs
           \<and> set gs = set [(''mlsNumber'', JString ''HMS1234567''), (''providerTag'', JNumber 42)])"
proof -
  have f: "find_member (fst (flatten Listings_Listing)) ''mlsNumber'' = Some (opt ''mlsNumber'' TString)"
    by (rule Listing_members)
  have c: "conforms decl (mtype (opt ''mlsNumber'' TString)) (JString ''HMS1234567'')" by simp
  have u: "''providerTag'' \<notin> set (declared_names Listings_Listing)"
    by (simp add: declared_names_def Listings_Listing_def extend_shape_def)
  have g: "find_member (fst (flatten Listings_Details)) ''numBedrooms''
     = Some (opt ''numBedrooms'' (TUnion [TString, TNull]))"
    by (rule Details_members)
  have e: "conforms decl (mtype (opt ''numBedrooms'' (TUnion [TString, TNull]))) (JString ''3'')"
    by simp
  have t: "''providerTag'' \<notin> set (declared_names Listings_Details)"
    by (simp add: declared_names_def Listings_Details_def extend_shape_def)
  have r: "accepts Listings_Room (JObject [(''description'', JString ''Kitchen'')])"
    by (simp add: accepts_object Listings_Room_def extend_shape_def required_names_def field_type_def)
  have n: "''providerTag'' \<notin> set (declared_names Listings_Room)"
    by (simp add: closed_names)
  have p: "''providerTag''
      \<in> set (map fst [(''description'', JString ''Kitchen''), (''providerTag'', JNumber 42)])"
    by simp
  have "decode Listings_Listing
     (JObject [(''mlsNumber'', JString ''HMS1234567''), (''providerTag'', JNumber 42)])
     = Some ([(''mlsNumber'', JString ''HMS1234567'')], [(''providerTag'', JNumber 42)])
   \<and> set (map fst [(''description'', JString ''Kitchen'')]) \<subseteq> set (declared_names Listings_Room)
   \<and> (\<exists>d gs. decode Listings_Listing
               (JObject [(''mlsNumber'', JString ''HMS1234567''), (''providerTag'', JNumber 42)])
             = Some d
           \<and> encode d = JObject gs
           \<and> set gs = set [(''mlsNumber'', JString ''HMS1234567''), (''providerTag'', JNumber 42)])"
    using C1_extensible_and_closed[of Listings_Listing "''mlsNumber''" "opt ''mlsNumber'' TString"
        "JString ''HMS1234567''" "''providerTag''" "JNumber 42"
        "[(''mlsNumber'', JString ''HMS1234567''), (''providerTag'', JNumber 42)]" Listings_Room
        "[(''description'', JString ''Kitchen'')]" "''providerTag''"] f c u r
    by blast
  moreover have "decode Listings_Details
     (JObject [(''numBedrooms'', JString ''3''), (''providerTag'', JNumber 42)])
     = Some ([(''numBedrooms'', JString ''3'')], [(''providerTag'', JNumber 42)])
   \<and> encode ([(''numBedrooms'', JString ''3'')], [(''providerTag'', JNumber 42)])
     = JObject [(''numBedrooms'', JString ''3''), (''providerTag'', JNumber 42)]
   \<and> decode Listings_Room
     (JObject [(''description'', JString ''Kitchen''), (''providerTag'', JNumber 42)]) = None"
    using C1_extensible_and_closed[of Listings_Details "''numBedrooms''"
        "opt ''numBedrooms'' (TUnion [TString, TNull])"
        "JString ''3''" "''providerTag''" "JNumber 42" "[]" Listings_Room
        "[(''description'', JString ''Kitchen''), (''providerTag'', JNumber 42)]" "''providerTag''"]
      g e t n p
    by blast
  ultimately show ?thesis using r by blast
qed

text \<open>
  Claim C2. \<open>StatusValues\<close> is the list \<open>["A", "U"]\<close>, \<open>ClassValues\<close> is
  \<open>["condo", "residential", "commercial"]\<close>, \<open>LastStatusValues\<close> has exactly 12 (distinct)
  codes and \<open>SortByValues\<close> at least 25 (distinct) sort orders; for each of the four,
  and for each of the other eight value lists, a string is accepted by the type
  derived from the list exactly when it is an element of the list.
\<close>

theorem C2_value_sets:
  "StatusValues = [''A'', ''U'']
 \<and> ClassValues = [''condo'', ''residential'', ''commercial'']
 \<and> length LastStatusValues = 12 \<and> distinct LastStatusValues
 \<and> 25 \<le> length SortByValues \<and> distinct SortByValues
 \<and> (conforms D Status (JString s) \<longleftrightarrow> s \<in> set StatusValues)
 \<and> (conforms D Class (JString s) \<longleftrightarrow> s \<in> set ClassValues)
 \<and> (conforms D LastStatus (JString s) \<longleftrightarrow> s \<in> set LastStatusValues)
 \<and> (conforms D SortBy (JString s) \<longleftrightarrow> s \<in> set SortByValues)
 \<and> (conforms D Aggregates (JString s) \<longleftrightarrow> s \<in> set AggregatesValues)
 \<and> (conforms D YesNo (JString s) \<longleftrightarrow> s \<in> set YesNoValues)
 \<and> (conforms D Operator (JString s) \<longleftrightarrow> s \<in> set OperatorValues)
 \<and> (conforms D SimilarSortBy (JString s) \<longleftrightarrow> s \<in> set SimilarSortByValues)
 \<and> (conforms D Statistics (JString s) \<longleftrightarrow> s \<in> set StatisticsValues)
 \<and> (conforms D Type (JString s) \<longleftrightarrow> s \<in> set TypeValues)
 \<and> (conforms D Listings_StreetDirection (JString s) \<longleftrightarrow> s \<in> set Listings_StreetDirectionValues)
 \<and> (conforms D Listings_CoverImage (JString s) \<longleftrightarrow> s \<in> set Listings_CoverImageValues)"
proof -
  have "StatusValues = [''A'', ''U'']" by (simp add: StatusValues_def)
  moreover have "ClassValues = [''condo'', ''residential'', ''commercial'']"
    by (simp add: ClassValues_def)
  moreover have "length LastStatusValues = 12" by (simp add: LastStatusValues_def)
  moreover have "distinct LastStatusValues" by (simp add: LastStatusValues_def)
  moreover have "25 \<le> length SortByValues" by (simp add: SortByValues_def)
  moreover have "distinct SortByValues" by (simp add: SortByValues_def)
  moreover have "conforms D Status (JString s) \<longleftrightarrow> s \<in> set StatusValues"
    by (auto simp: Status_def conforms_values_type)
  moreover have "conforms D Class (JString s) \<longleftrightarrow> s \<in> set ClassValues"
    by (auto simp: Class_def conforms_values_type)
  moreover have "conforms D LastStatus (JString s) \<longleftrightarrow> s \<in> set LastStatusValues"
    by (auto simp: LastStatus_def conforms_values_type)
  moreover have "conforms D SortBy (JString s) \<longleftrightarrow> s \<in> set SortByValues"
    by (auto simp: SortBy_def conforms_values_type)
  moreover have "conforms D Aggregates (JString s) \<longleftrightarrow> s \<in> set AggregatesValues"
    by (auto simp: Aggregates_def conforms_values_type)
  moreover have "conforms D YesNo (JString s) \<longleftrightarrow> s \<in> set YesNoValues"
    by (auto simp: YesNo_def conforms_values_type)
  moreover have "conforms D Operator (JString s) \<longleftrightarrow> s \<in> set OperatorValues"
    by (auto simp: Operator_def conforms_values_type)
  moreover have "conforms D SimilarSortBy (JString s) \<longleftrightarrow> s \<in> set SimilarSortByValues"
    by (auto simp: SimilarSortBy_def conforms_values_type)
  moreover have "conforms D Statistics (JString s) \<longleftrightarrow> s \<in> set StatisticsValues"
    by (auto simp: Statistics_def conforms_values_type)
  moreover have "conforms D Type (JString s) \<longleftrightarrow> s \<in> set TypeValues"
    by (auto simp: Type_def conforms_values_type)
  moreover have "conforms D Listings_StreetDirection (JString s) \<longleftrightarrow> s \<in> set Listings_StreetDirectionValues"
    by (auto simp: Listings_StreetDirection_def conforms_values_type)
  moreover have "conforms D Listings_CoverImage (JString s) \<longleftrightarrow> s \<in> set Listings_CoverImageValues"
    by (auto simp: Listings_CoverImage_def conforms_values_type)
  ultimately show ?thesis by blast
qed

text \<open>One literal of a list is accepted and one string outside a list is refused.\<close>

theorem C2_value_sets_witness:
  "conforms decl Status (JString ''A'') \<and> ''A'' \<in> set StatusValues
 \<and> \<not> conforms decl Class (JString ''land'') \<and> ''land'' \<notin> set ClassValues"
proof -
  have a: "''A'' \<in> set StatusValues" by (simp add: StatusValues_def)
  have b: "''land'' \<notin> set ClassValues" by (simp add: ClassValues_def)
  show ?thesis
    using C2_value_sets[of decl "''A''"] C2_value_sets[of decl "''land''"] a b by simp
qed

text \<open>
  Claim C8. \<open>AggregatesValues\<close> holds the string \<open>detail.numBedrooms\<close> as it is written,
  does not hold \<open>details.numBedrooms\<close>, and spells the bathrooms entry
  \<open>details.numBathrooms\<close>.
\<close>

theorem C8_aggregates_typo_preserved:
  "''detail.numBedrooms'' \<in> set AggregatesValues
 \<and> ''details.numBedrooms'' \<notin> set AggregatesValues
 \<and> ''details.numBathrooms'' \<in> set AggregatesValues"
  by (simp add: AggregatesValues_def)

lemma SearchRequest_aliases:
  "deprecated_aliases Listings_SearchRequest =
     [(''maxBeds'', ''maxBedrooms''), (''maxBedsPlus'', ''maxBedroomsPlus''),
      (''minBeds'', ''minBedrooms''), (''minBedsPlus'', ''minBedroomsPlus'')]"
  by (simp add: deprecated_aliases_def Listings_SearchRequest_def)

text \<open>
  Claim C3 says that exactly two fields of \<open>SearchRequest\<close> are deprecated aliases. The
  declaration tags four: \<open>minBeds\<close> and \<open>minBedsPlus\<close> are deprecated in favour of
  \<open>minBedrooms\<close> and \<open>minBedroomsPlus\<close> as well.
\<close>

theorem C3_exactly_two_aliases_counterexample:
  "(''minBeds'', ''minBedrooms'') \<in> set (deprecated_aliases Listings_SearchRequest)
 \<and> (''minBedsPlus'', ''minBedroomsPlus'') \<in> set (deprecated_aliases Listings_SearchRequest)
 \<and> length (deprecated_aliases Listings_SearchRequest) \<noteq> 2"
  by (simp add: SearchRequest_aliases)

lemma SearchRequest_open:
  "required_names (flatten Listings_SearchRequest) = []
 \<and> snd (flatten Listings_SearchRequest) = Some TUnknown"
  by (simp add: Listings_SearchRequest_def ApiRequest_def required_names_def extend_shape_def)

lemma SearchRequest_bed_fields:
  "field_type (flatten Listings_SearchRequest) ''maxBeds'' = Some TNumber"
  "field_type (flatten Listings_SearchRequest) ''maxBedrooms'' = Some TNumber"
  "field_type (flatten Listings_SearchRequest) ''maxBedsPlus'' = Some TNumber"
  "field_type (flatten Listings_SearchRequest) ''maxBedroomsPlus'' = Some TNumber"
  "field_type (flatten Listings_SearchRequest) ''minBeds'' = Some TNumber"
  "field_type (flatten Listings_SearchRequest) ''minBedrooms'' = Some TNumber"
  "field_type (flatten Listings_SearchRequest) ''minBedsPlus'' = Some TNumber"
  "field_type (flatten Listings_SearchRequest) ''minBedroomsPlus'' = Some TNumber"
  by (simp_all add: Listings_SearchRequest_def ApiRequest_def field_type_def extend_shape_def)

lemma SearchRequest_canonical:
  "canonical_name Listings_SearchRequest k =
     (if k = ''maxBeds'' then ''maxBedrooms''
      else if k = ''maxBedsPlus'' then ''maxBedroomsPlus''
      else if k = ''minBeds'' then ''minBedrooms''
      else if k = ''minBedsPlus'' then ''minBedroomsPlus''
      else k)"
  by (simp add: canonical_name_def SearchRequest_aliases)

lemma SearchRequest_same_field:
  "canonical_name Listings_SearchRequest k = canonical_name Listings_SearchRequest k'
   \<longleftrightarrow> k = k' \<or> (k, k') \<in> set (deprecated_aliases Listings_SearchRequest)
             \<or> (k', k) \<in> set (deprecated_aliases Listings_SearchRequest)"
  by (simp add: SearchRequest_canonical SearchRequest_aliases) auto

text \<open>
  Claim C3, amended. Exactly four fields of \<open>SearchRequest\<close> are deprecated aliases:
  \<open>maxBeds\<close> of \<open>maxBedrooms\<close>, \<open>maxBedsPlus\<close> of \<open>maxBedroomsPlus\<close>, \<open>minBeds\<close> of
  \<open>minBedrooms\<close> and \<open>minBedsPlus\<close> of \<open>minBedroomsPlus\<close>. The old and the new name of
  each pair are both accepted, as optional fields of type \<open>number\<close>, and a request that
  gives a value under the old name means exactly the same constraints as the request
  that gives the value under the new name, whatever its other members. Two fields with
  the same value mean the same constraint only when they are the same field or the
  two names of one pair.
\<close>

theorem C3_deprecated_aliases:
  "deprecated_aliases Listings_SearchRequest =
     [(''maxBeds'', ''maxBedrooms''), (''maxBedsPlus'', ''maxBedroomsPlus''),
      (''minBeds'', ''minBedrooms''), (''minBedsPlus'', ''minBedroomsPlus'')]
 \<and> ((old, new) \<in> set (deprecated_aliases Listings_SearchRequest) \<longrightarrow>
       field_type (flatten Listings_SearchRequest) old = Some TNumber
     \<and> field_type (flatten Listings_SearchRequest) new = Some TNumber
     \<and> old \<notin> set (required_names (flatten Listings_SearchRequest))
     \<and> new \<notin> set (required_names (flatten Listings_SearchRequest))
     \<and> (accepts Listings_SearchRequest (JObject [(old, x)])
          \<longleftrightarrow> accepts Listings_SearchRequest (JObject [(new, x)]))
     \<and> accepts Listings_SearchRequest (JObject [(old, JNumber n)])
     \<and> accepts Listings_SearchRequest (JObject [(new, JNumber n)])
     \<and> canonical_name Listings_SearchRequest old = new
     \<and> canonical_name Listings_SearchRequest new = new
     \<and> constraints Listings_SearchRequest (JObject ((old, x) # fs))
         = constraints Listings_SearchRequest (JObject ((new, x) # fs)))
 \<and> (constraints Listings_SearchRequest (JObject [(k, x)])
       = constraints Listings_SearchRequest (JObject [(k', x)])
     \<longleftrightarrow> k = k' \<or> (k, k') \<in> set (deprecated_aliases Listings_SearchRequest)
               \<or> (k', k) \<in> set (deprecated_aliases Listings_SearchRequest))"
proof (intro conjI impI)
  show "deprecated_aliases Listings_SearchRequest =
     [(''maxBeds'', ''maxBedrooms''), (''maxBedsPlus'', ''maxBedroomsPlus''),
      (''minBeds'', ''minBedrooms''), (''minBedsPlus'', ''minBedroomsPlus'')]"
    by (rule SearchRequest_aliases)
next
  show "constraints Listings_SearchRequest (JObject [(k, x)])
       = constraints Listings_SearchRequest (JObject [(k', x)])
     \<longleftrightarrow> k = k' \<or> (k, k') \<in> set (deprecated_aliases Listings_SearchRequest)
               \<or> (k', k) \<in> set (deprecated_aliases Listings_SearchRequest)"
    using SearchRequest_same_field[of k k'] by (simp add: constraints_def)
next
  assume "(old, new) \<in> set (deprecated_aliases Listings_SearchRequest)"
  then have names:
    "(old, new) = (''maxBeds'', ''maxBedrooms'') \<or> (old, new) = (''maxBedsPlus'', ''maxBedroomsPlus'')
   \<or> (old, new) = (''minBeds'', ''minBedrooms'') \<or> (old, new) = (''minBedsPlus'', ''minBedroomsPlus'')"
    by (simp add: SearchRequest_aliases)
  have r: "required_names (flatten Listings_SearchRequest) = []"
    using SearchRequest_open by simp
  show o: "field_type (flatten Listings_SearchRequest) old = Some TNumber"
    using names SearchRequest_bed_fields by auto
  show n: "field_type (flatten Listings_SearchRequest) new = Some TNumber"
    using names SearchRequest_bed_fields by auto
  show "old \<notin> set (required_names (flatten Listings_SearchRequest))" using r by simp
  show "new \<notin> set (required_names (flatten Listings_SearchRequest))" using r by simp
  show "accepts Listings_SearchRequest (JObject [(old, x)])
          \<longleftrightarrow> accepts Listings_SearchRequest (JObject [(new, x)])"
    by (simp add: accepts_single_number_field[OF r o] accepts_single_number_field[OF r n])
  show "accepts Listings_SearchRequest (JObject [(old, JNumber n)])"
    by (simp add: accepts_single_number_field[OF r o])
  show "accepts Listings_SearchRequest (JObject [(new, JNumber n)])"
    by (simp add: accepts_single_number_field[OF r n])
  show co: "canonical_name Listings_SearchRequest old = new"
    using names by (auto simp: SearchRequest_canonical)
  show cn: "canonical_name Listings_SearchRequest new = new"
    using names by (auto simp: SearchRequest_canonical)
  show "constraints Listings_SearchRequest (JObject ((old, x) # fs))
         = constraints Listings_SearchRequest (JObject ((new, x) # fs))"
    by (simp add: constraints_def co cn)
qed

text \<open>
  The requests \<open>{maxBeds: 3}\<close> and \<open>{maxBedrooms: 3}\<close> mean the same constraint, and
  \<open>{maxPrice: 3}\<close> another.
\<close>

theorem C3_deprecated_aliases_witness:
  "(''maxBeds'', ''maxBedrooms'') \<in> set (deprecated_aliases Listings_SearchRequest)
 \<and> accepts Listings_SearchRequest (JObject [(''maxBeds'', JNumber 3)])
 \<and> accepts Listings_SearchRequest (JObject [(''maxBedrooms'', JNumber 3)])
 \<and> field_type (flatten Listings_SearchRequest) ''maxBeds''
     = field_type (flatten Listings_SearchRequest) ''maxBedrooms''
 \<and> constraints Listings_SearchRequest (JObject [(''maxBeds'', JNumber 3)])
     = constraints Listings_SearchRequest (JObject [(''maxBedrooms'', JNumber 3)])
 \<and> constraints Listings_SearchRequest (JObject [(''maxBeds'', JNumber 3)])
     \<noteq> constraints Listings_SearchRequest (JObject [(''maxPrice'', JNumber 3)])"
proof -
  have m: "(''maxBeds'', ''maxBedrooms'') \<in> set (deprecated_aliases Listings_SearchRequest)"
    by (simp add: SearchRequest_aliases)
  have p: "''maxBeds'' \<noteq> ''maxPrice''
      \<and> (''maxBeds'', ''maxPrice'') \<notin> set (deprecated_aliases Listings_SearchRequest)
      \<and> (''maxPrice'', ''maxBeds'') \<notin> set (deprecated_aliases Listings_SearchRequest)"
    by (simp add: SearchRequest_aliases)
  note t = C3_deprecated_aliases[of "''maxBeds''" "''maxBedrooms''" "JNumber 3" 3 "[]"
        "''maxBeds''" "''maxPrice''"]
  have a: "accepts Listings_SearchRequest (JObject [(''maxBeds'', JNumber 3)])"
    using t m by simp
  have b: "accepts Listings_SearchRequest (JObject [(''maxBedrooms'', JNumber 3)])"
    using t m by simp
  have f: "field_type (flatten Listings_SearchRequest) ''maxBeds''
     = field_type (flatten Listings_SearchRequest) ''maxBedrooms''"
    using t m by simp
  have e: "constraints Listings_SearchRequest (JObject [(''maxBeds'', JNumber 3)])
     = constraints Listings_SearchRequest (JObject [(''maxBedrooms'', JNumber 3)])"
    using t m by simp
  have ne: "constraints Listings_SearchRequest (JObject [(''maxBeds'', JNumber 3)])
     \<noteq> constraints Listings_SearchRequest (JObject [(''maxPrice'', JNumber 3)])"
    using t[THEN conjunct2, THEN conjunct2] p by simp
  from m a b f e ne show ?thesis by (intro conjI)
qed

lemma SearchResponse_required:
  "required_names (flatten Listings_SearchResponse) =
     [''page'', ''numPages'', ''pageSize'', ''count'', ''listings'', ''statistics'']"
  by (simp add: Listings_SearchResponse_def ApiResponse_def required_names_def extend_shape_def)

text \<open>
  Claim C4 says that the \<open>statistics\<close> block of \<open>SearchResponse\<close> is optional. The
  declaration writes \<open>statistics\<close> without \<open>?\<close>: a payload with the pagination fields
  and the listings and no \<open>statistics\<close> member is not accepted.
\<close>

theorem C4_statistics_optional_counterexample:
  "\<not> accepts Listings_SearchResponse
       (JObject [(''page'', JNumber 1), (''numPages'', JNumber 1), (''pageSize'', JNumber 25),
                 (''count'', JNumber 0), (''listings'', JArray [])])"
  by (simp add: accepts_object SearchResponse_required)

text \<open>
  Claim C4, amended. \<open>SearchResponse\<close> requires \<open>page\<close>, \<open>numPages\<close>, \<open>pageSize\<close>,
  \<open>count\<close>, the sequence \<open>listings\<close> and the \<open>statistics\<close> block; every member of the
  block is optional, so a payload with the pagination fields, listings that are each
  accepted as \<open>Listing\<close>, and an empty \<open>statistics\<close> object is accepted.
\<close>

theorem C4_search_response:
  "required_names (flatten Listings_SearchResponse) =
     [''page'', ''numPages'', ''pageSize'', ''count'', ''listings'', ''statistics'']
 \<and> (accepts Listings_SearchResponse (JObject fs) \<longrightarrow> ''statistics'' \<in> set (map fst fs))
 \<and> ((\<forall>l \<in> set ls. accepts Listings_Listing l) \<longrightarrow>
       accepts Listings_SearchResponse
         (JObject [(''page'', JNumber p), (''numPages'', JNumber np), (''pageSize'', JNumber ps),
                   (''count'', JNumber c), (''listings'', JArray ls),
                   (''statistics'', JObject [])]))"
proof (intro conjI impI)
  show "required_names (flatten Listings_SearchResponse) =
     [''page'', ''numPages'', ''pageSize'', ''count'', ''listings'', ''statistics'']"
    by (rule SearchResponse_required)
next
  assume "accepts Listings_SearchResponse (JObject fs)"
  then show "''statistics'' \<in> set (map fst fs)"
    by (simp add: accepts_object SearchResponse_required)
next
  assume ls: "\<forall>l \<in> set ls. accepts Listings_Listing l"
  have ft:
    "field_type (flatten Listings_SearchResponse) ''page'' = Some TNumber"
    "field_type (flatten Listings_SearchResponse) ''numPages'' = Some TNumber"
    "field_type (flatten Listings_SearchResponse) ''pageSize'' = Some TNumber"
    "field_type (flatten Listings_SearchResponse) ''count'' = Some TNumber"
    "field_type (flatten Listings_SearchResponse) ''listings''
       = Some (TArray (TObj (Ref ''Listings.Listing'')))"
    by (simp_all add: Listings_SearchResponse_def ApiResponse_def field_type_def extend_shape_def)
  have st: "\<exists>ms. field_type (flatten Listings_SearchResponse) ''statistics''
                  = Some (TObj (Lit ms None)) \<and> required_names (ms, None) = []"
    by (simp add: Listings_SearchResponse_def ApiResponse_def field_type_def extend_shape_def
        required_names_def)
  then obtain ms where ms: "field_type (flatten Listings_SearchResponse) ''statistics''
                  = Some (TObj (Lit ms None))" "required_names (ms, None) = []" by blast
  from ls have la: "conforms decl (TArray (TObj (Ref ''Listings.Listing''))) (JArray ls)"
    by (simp add: conforms_ref[OF decl_Listing] del: conforms.simps(13))
  from ms(2) have sa: "conforms decl (TObj (Lit ms None)) (JObject [])"
    by simp
  show "accepts Listings_SearchResponse
         (JObject [(''page'', JNumber p), (''numPages'', JNumber np), (''pageSize'', JNumber ps),
                   (''count'', JNumber c), (''listings'', JArray ls),
                   (''statistics'', JObject [])])"
    by (simp add: accepts_object SearchResponse_required ft ms(1) la sa
        del: conforms.simps(11) conforms.simps(13))
qed

text \<open>A one-listing page with an empty statistics block.\<close>

theorem C4_search_response_witness:
  "accepts Listings_SearchResponse
     (JObject [(''page'', JNumber 1), (''numPages'', JNumber 1), (''pageSize'', JNumber 25),
               (''count'', JNumber 1),
               (''listings'', JArray [JObject [(''mlsNumber'', JString ''HMS1234567'')]]),
               (''statistics'', JObject [])])"
proof -
  have "accepts Listings_Listing (JObject [(''mlsNumber'', JString ''HMS1234567'')])"
    by (simp add: accepts_object Listings_Listing_def required_names_def field_type_def
        extend_shape_def)
  then show ?thesis
    using C4_search_response[of "[]" "[JObject [(''mlsNumber'', JString ''HMS1234567'')]]" 1 1 25 1]
    by simp
qed

text \<open>
  Claim C5 says that every response shape extends \<open>ApiResponse\<close> and every request
  shape extends \<open>ApiRequest\<close>. Every request shape does; of the response shapes, the
  \<open>GetResponse\<close>, \<open>DeleteResponse\<close> and \<open>PatchResponse\<close> of the Estimate group are
  declared from \<open>ApiRequest\<close> and not from \<open>ApiResponse\<close>, unlike \<open>AddResponse\<close> of
  the same group and every response shape of the other groups.
\<close>

theorem C5_estimate_responses_extend_request_marker:
  "map iname (filter (\<lambda>i. ''ApiResponse'' \<notin> set (ancestors i)) response_shapes)
     = [''Estimate.GetResponse'', ''Estimate.DeleteResponse'', ''Estimate.PatchResponse'']
 \<and> filter (\<lambda>i. ''ApiRequest'' \<notin> set (ancestors i)) request_shapes = []
 \<and> ancestors Estimate_GetResponse = [''ApiRequest'']
 \<and> ancestors Estimate_DeleteResponse = [''ApiRequest'']
 \<and> ancestors Estimate_PatchResponse = [''Estimate.GetResponse'', ''ApiRequest'']
 \<and> ancestors Estimate_AddResponse = [''ApiResponse'']"
  by (simp add: response_shapes_def request_shapes_def ApiRequest_def ApiResponse_def
      Clients_Client_def Listings_Listing_def Estimate_AddRequest_def Estimate_GetRequest_def Estimate_DeleteRequest_def Estimate_PatchRequest_def
      Listings_SearchRequest_def Listings_SimilarRequest_def Listings_ListingRequest_def Listings_LocationsRequest_def
      Listings_NlpRequest_def Searches_CreateRequest_def Searches_UpdateRequest_def Searches_FilterRequest_def
      Searches_DeleteRequest_def Searches_GetRequest_def Clients_CreateRequest_def Clients_UpdateRequest_def
      Clients_FilterRequest_def Clients_RenameTagRequest_def Favorites_AddRequest_def Favorites_DeleteRequest_def
      Favorites_GetRequest_def Messages_SendRequest_def Estimate_AddResponse_def Estimate_GetResponse_def
      Estimate_DeleteResponse_def Estimate_PatchResponse_def Listings_SearchResponse_def Listings_SimilarResponse_def
      Listings_ListingResponse_def Listings_LocationsResponse_def Listings_NlpResponse_def Searches_CreateResponse_def
      Searches_UpdateResponse_def Searches_FilterResponse_def Searches_DeleteResponse_def Searches_GetResponse_def
      Clients_CreateResponse_def Clients_UpdateResponse_def Clients_DeleteResponse_def Clients_GetResponse_def
      Clients_FilterResponse_def Clients_GetTagsResponse_def Clients_RenameTagResponse_def Favorites_AddResponse_def
      Favorites_DeleteResponse_def Favorites_GetResponse_def Messages_SendResponse_def)

lemma AddRequest_required: "required_names (flatten Estimate_AddRequest) = []"
  by (simp add: Estimate_AddRequest_def ApiRequest_def required_names_def extend_shape_def)

lemma AddRequest_details:
  "\<exists>ms. field_type (flatten Estimate_AddRequest) ''details'' = Some (TObj (Lit ms None))
      \<and> required_names (ms, None)
          = [''extras'', ''numBathrooms'', ''numBedrooms'', ''propertyType'', ''sqft'', ''style'']"
  by (simp add: Estimate_AddRequest_def ApiRequest_def field_type_def extend_shape_def
      required_names_def)

lemma AddRequest_address:
  "\<exists>ms. field_type (flatten Estimate_AddRequest) ''address'' = Some (TObj (Lit ms None))
      \<and> required_names (ms, None)
          = [''city'', ''streetName'', ''streetNumber'', ''streetSuffix'', ''zip'']"
  by (simp add: Estimate_AddRequest_def ApiRequest_def field_type_def extend_shape_def
      required_names_def)

lemma PatchRequest_shape:
  "flatten Estimate_PatchRequest = ([req ''estimateId'' TNumber], Some TUnknown)"
  by (simp add: Estimate_PatchRequest_def Estimate_AddRequest_def ApiRequest_def extend_shape_def
      omit_shape_def)

text \<open>
  Claim C6 says that a payload lacking the address or the bedroom, bathroom, sqft or
  property type fields does not match \<open>AddRequest\<close>. The members \<open>address\<close> and
  \<open>details\<close> are optional: the empty payload is accepted.
\<close>

theorem C6_address_required_counterexample:
  "accepts Estimate_AddRequest (JObject [])"
  by (simp add: accepts_object AddRequest_required)

text \<open>
  Claim C6, amended. \<open>AddRequest\<close> has no required member; when \<open>details\<close> is given
  it is an object with \<open>numBathrooms\<close>, \<open>numBedrooms\<close>, \<open>sqft\<close> and \<open>propertyType\<close>
  (and \<open>extras\<close> and \<open>style\<close>), and when \<open>address\<close> is given it is an object with
  \<open>city\<close>, \<open>streetName\<close>, \<open>streetNumber\<close>, \<open>streetSuffix\<close> and \<open>zip\<close>.
  \<open>PatchRequest\<close> requires \<open>estimateId\<close>, and a payload with \<open>estimateId\<close> alone is
  accepted.
\<close>

theorem C6_estimate_requests:
  "required_names (flatten Estimate_AddRequest) = []
 \<and> (accepts Estimate_AddRequest (JObject fs) \<and> map_of fs ''details'' = Some d \<longrightarrow>
      (\<exists>ds. d = JObject ds
          \<and> set [''extras'', ''numBathrooms'', ''numBedrooms'', ''propertyType'', ''sqft'', ''style'']
              \<subseteq> set (map fst ds)))
 \<and> (accepts Estimate_AddRequest (JObject fs) \<and> map_of fs ''address'' = Some a \<longrightarrow>
      (\<exists>as. a = JObject as
          \<and> set [''city'', ''streetName'', ''streetNumber'', ''streetSuffix'', ''zip'']
              \<subseteq> set (map fst as)))
 \<and> (accepts Estimate_PatchRequest (JObject gs) \<longrightarrow> ''estimateId'' \<in> set (map fst gs))
 \<and> accepts Estimate_PatchRequest (JObject [(''estimateId'', JNumber n)])"
proof (intro conjI impI)
  show "required_names (flatten Estimate_AddRequest) = []" by (rule AddRequest_required)
next
  assume h: "accepts Estimate_AddRequest (JObject fs) \<and> map_of fs ''details'' = Some d"
  from AddRequest_details obtain ms where
    ms: "field_type (flatten Estimate_AddRequest) ''details'' = Some (TObj (Lit ms None))"
        "required_names (ms, None)
          = [''extras'', ''numBathrooms'', ''numBedrooms'', ''propertyType'', ''sqft'', ''style'']"
    by blast
  from h ms(1) have "conforms decl (TObj (Lit ms None)) d"
    using accepts_field_conforms by blast
  from conforms_object_required[OF this] ms(2)
  show "\<exists>ds. d = JObject ds
          \<and> set [''extras'', ''numBathrooms'', ''numBedrooms'', ''propertyType'', ''sqft'', ''style'']
              \<subseteq> set (map fst ds)"
    by simp
next
  assume h: "accepts Estimate_AddRequest (JObject fs) \<and> map_of fs ''address'' = Some a"
  from AddRequest_address obtain ms where
    ms: "field_type (flatten Estimate_AddRequest) ''address'' = Some (TObj (Lit ms None))"
        "required_names (ms, None)
          = [''city'', ''streetName'', ''streetNumber'', ''streetSuffix'', ''zip'']"
    by blast
  from h ms(1) have "conforms decl (TObj (Lit ms None)) a"
    using accepts_field_conforms by blast
  from conforms_object_required[OF this] ms(2)
  show "\<exists>as. a = JObject as
          \<and> set [''city'', ''streetName'', ''streetNumber'', ''streetSuffix'', ''zip'']
              \<subseteq> set (map fst as)"
    by simp
next
  assume "accepts Estimate_PatchRequest (JObject gs)"
  then show "''estimateId'' \<in> set (map fst gs)"
    by (simp add: accepts_object PatchRequest_shape required_names_def)
next
  show "accepts Estimate_PatchRequest (JObject [(''estimateId'', JNumber n)])"
    by (simp add: accepts_object PatchRequest_shape required_names_def field_type_def)
qed

text \<open>
  A request with an address and details is accepted; the same details without
  \<open>sqft\<close> are refused; a patch request with its identifier alone is accepted.
\<close>

theorem C6_estimate_requests_witness:
  "accepts Estimate_AddRequest
     (JObject [(''address'', JObject [(''city'', JString ''Toronto''), (''streetName'', JString ''King''),
                  (''streetNumber'', JString ''100''), (''streetSuffix'', JString ''St''),
                  (''zip'', JString ''M5H 1A1'')]),
               (''details'', JObject [(''extras'', JString ''''), (''numBathrooms'', JNumber 2),
                  (''numBedrooms'', JNumber 3), (''propertyType'', JString ''Detached''),
                  (''sqft'', JNumber 1500), (''style'', JString ''2-Storey'')])])
 \<and> \<not> accepts Estimate_AddRequest
     (JObject [(''details'', JObject [(''extras'', JString ''''), (''numBathrooms'', JNumber 2),
                  (''numBedrooms'', JNumber 3), (''propertyType'', JString ''Detached''),
                  (''style'', JString ''2-Storey'')])])
 \<and> accepts Estimate_PatchRequest (JObject [(''estimateId'', JNumber 7)])"
proof -
  let ?addr = "JObject [(''city'', JString ''Toronto''), (''streetName'', JString ''King''),
                  (''streetNumber'', JString ''100''), (''streetSuffix'', JString ''St''),
                  (''zip'', JString ''M5H 1A1'')]"
  let ?det = "JObject [(''extras'', JString ''''), (''numBathrooms'', JNumber 2),
                  (''numBedrooms'', JNumber 3), (''propertyType'', JString ''Detached''),
                  (''sqft'', JNumber 1500), (''style'', JString ''2-Storey'')]"
  let ?bad = "JObject [(''extras'', JString ''''), (''numBathrooms'', JNumber 2),
                  (''numBedrooms'', JNumber 3), (''propertyType'', JString ''Detached''),
                  (''style'', JString ''2-Storey'')]"
  have ok: "accepts Estimate_AddRequest (JObject [(''address'', ?addr), (''details'', ?det)])"
    by (simp add: accepts_object Estimate_AddRequest_def ApiRequest_def required_names_def
        field_type_def extend_shape_def)
  have m: "map_of [(''address'', ?addr), (''details'', ?det)] ''details'' = Some ?det"
          "map_of [(''address'', ?addr), (''details'', ?det)] ''address'' = Some ?addr"
    by simp_all
  have "\<not> accepts Estimate_AddRequest (JObject [(''details'', ?bad)])"
    using C6_estimate_requests[of "[(''details'', ?bad)]" ?bad] by auto
  moreover have "accepts Estimate_PatchRequest (JObject [(''estimateId'', JNumber 7)])"
    using C6_estimate_requests[of "[(''address'', ?addr), (''details'', ?det)]" ?det ?addr
        "[(''estimateId'', JNumber 7)]" 7] ok m
    by simp
  ultimately show ?thesis using ok by simp
qed

lemma decl_locations:
  "decl ''Listings.Area'' = Some Listings_Area"
  "decl ''Listings.City'' = Some Listings_City"
  "decl ''Listings.Neighborhood'' = Some Listings_Neighborhood"
  by (simp_all add: decl_def catalog_def)

lemma Area_shape:
  "flatten Listings_Area =
     ([req ''name'' TString, req ''cities'' (TArray (TObj (Ref ''Listings.City'')))], None)"
  by (simp add: Listings_Area_def extend_shape_def)

text \<open>
  Claim C7 says that every level of \<open>LocationsResponse\<close> carries a count and polygon
  coordinates. The area level declares \<open>name\<close> and \<open>cities\<close> only and has no index
  signature: an area without a count is accepted and an area with one is refused.
\<close>

theorem C7_every_level_counted_counterexample:
  "declared_names Listings_Area = [''name'', ''cities'']
 \<and> accepts Listings_Area (JObject [(''name'', JString ''Toronto''), (''cities'', JArray [])])
 \<and> \<not> accepts Listings_Area
       (JObject [(''name'', JString ''Toronto''), (''cities'', JArray []),
                 (''activeCount'', JNumber 3)])"
  by (simp add: declared_names_def accepts_object Area_shape required_names_def field_type_def)

text \<open>
  Claim C7, amended. \<open>LocationsResponse\<close> is the fixed hierarchy board, class, area,
  city, neighborhood: \<open>boards\<close> holds a board with \<open>boardId\<close>, \<open>name\<close>, \<open>updatedOn\<close>
  and \<open>classes\<close>, the triple of \<open>ClassWithAreas\<close> for exactly the three classes of
  \<open>ClassValues\<close> in their order; a class has a \<open>name\<close> and \<open>areas\<close>, an area a \<open>name\<close>
  and \<open>cities\<close>, a city its \<open>neighborhoods\<close>. Only the city and the neighborhood
  carry a count (\<open>activeCount\<close>, a required number) and polygon coordinates
  (\<open>coordinates\<close>, required, and either null or a sequence of sequences of pairs).
\<close>

theorem C7_locations_hierarchy:
  "field_type (flatten Listings_LocationsResponse) ''boards'' =
     Some (TTuple [TObj (Lit [
        req ''boardId'' TNumber,
        req ''name'' TString,
        req ''updatedOn'' TString,
        req ''classes''
          (TTuple (map (\<lambda>c. TObj (inline (Listings_ClassWithAreas (TLit c)))) ClassValues))]
        None)])
 \<and> flatten (Listings_ClassWithAreas c) =
     ([req ''name'' c, req ''areas'' (TArray (TObj (Ref ''Listings.Area'')))], None)
 \<and> flatten Listings_Area =
     ([req ''name'' TString, req ''cities'' (TArray (TObj (Ref ''Listings.City'')))], None)
 \<and> declared_names Listings_City =
     [''name'', ''activeCount'', ''location'', ''coordinates'', ''state'', ''neighborhoods'']
 \<and> field_type (flatten Listings_City) ''neighborhoods''
     = Some (TArray (TObj (Ref ''Listings.Neighborhood'')))
 \<and> declared_names Listings_Neighborhood = [''name'', ''activeCount'', ''location'', ''coordinates'']
 \<and> decl ''Listings.Area'' = Some Listings_Area
 \<and> decl ''Listings.City'' = Some Listings_City
 \<and> decl ''Listings.Neighborhood'' = Some Listings_Neighborhood
 \<and> ((i = Listings_City \<or> i = Listings_Neighborhood) \<longrightarrow>
       snd (flatten i) = None
     \<and> find_member (fst (flatten i)) ''activeCount'' = Some (req ''activeCount'' TNumber)
     \<and> find_member (fst (flatten i)) ''coordinates''
         = Some (req ''coordinates'' (TUnion [Listings_LocationCoordinates, TNull]))
     \<and> conforms decl (TUnion [Listings_LocationCoordinates, TNull]) JNull
     \<and> conforms decl (TUnion [Listings_LocationCoordinates, TNull])
         (JArray [JArray [JArray [JNumber x, JNumber y]]]))"
proof (intro conjI impI)
  show "field_type (flatten Listings_LocationsResponse) ''boards'' =
     Some (TTuple [TObj (Lit [
        req ''boardId'' TNumber,
        req ''name'' TString,
        req ''updatedOn'' TString,
        req ''classes''
          (TTuple (map (\<lambda>c. TObj (inline (Listings_ClassWithAreas (TLit c)))) ClassValues))]
        None)])"
    by (simp add: Listings_LocationsResponse_def ApiResponse_def field_type_def extend_shape_def
        ClassValues_def)
  show "flatten (Listings_ClassWithAreas c) =
     ([req ''name'' c, req ''areas'' (TArray (TObj (Ref ''Listings.Area'')))], None)"
    by (simp add: Listings_ClassWithAreas_def extend_shape_def)
  show "flatten Listings_Area =
     ([req ''name'' TString, req ''cities'' (TArray (TObj (Ref ''Listings.City'')))], None)"
    by (rule Area_shape)
  show "declared_names Listings_City =
     [''name'', ''activeCount'', ''location'', ''coordinates'', ''state'', ''neighborhoods'']"
    by (simp add: declared_names_def Listings_City_def extend_shape_def)
  show "field_type (flatten Listings_City) ''neighborhoods''
     = Some (TArray (TObj (Ref ''Listings.Neighborhood'')))"
    by (simp add: field_type_def Listings_City_def extend_shape_def)
  show "declared_names Listings_Neighborhood = [''name'', ''activeCount'', ''location'', ''coordinates'']"
    by (simp add: declared_names_def Listings_Neighborhood_def extend_shape_def)
  show "decl ''Listings.Area'' = Some Listings_Area" by (rule decl_locations)
  show "decl ''Listings.City'' = Some Listings_City" by (rule decl_locations)
  show "decl ''Listings.Neighborhood'' = Some Listings_Neighborhood" by (rule decl_locations)
next
  assume i: "i = Listings_City \<or> i = Listings_Neighborhood"
  then show "snd (flatten i) = None"
    by (auto simp: Listings_City_def Listings_Neighborhood_def extend_shape_def)
  from i show "find_member (fst (flatten i)) ''activeCount'' = Some (req ''activeCount'' TNumber)"
    by (auto simp: Listings_City_def Listings_Neighborhood_def extend_shape_def)
  from i show "find_member (fst (flatten i)) ''coordinates''
         = Some (req ''coordinates'' (TUnion [Listings_LocationCoordinates, TNull]))"
    by (auto simp: Listings_City_def Listings_Neighborhood_def extend_shape_def)
  show "conforms decl (TUnion [Listings_LocationCoordinates, TNull]) JNull" by simp
  show "conforms decl (TUnion [Listings_LocationCoordinates, TNull])
         (JArray [JArray [JArray [JNumber x, JNumber y]]])"
    by (simp add: Listings_LocationCoordinates_def)
qed

text \<open>The city level, one polygon of one point, and the class \<open>condo\<close>.\<close>

theorem C7_locations_hierarchy_witness:
  "find_member (fst (flatten Listings_City)) ''activeCount'' = Some (req ''activeCount'' TNumber)
 \<and> conforms decl (TUnion [Listings_LocationCoordinates, TNull])
      (JArray [JArray [JArray [JNumber 43, JNumber (-79)]]])
 \<and> flatten (Listings_ClassWithAreas (TLit ''condo'')) =
     ([req ''name'' (TLit ''condo''), req ''areas'' (TArray (TObj (Ref ''Listings.Area'')))], None)"
  using C7_locations_hierarchy[of "TLit ''condo''" Listings_City 43 "-79"] by simp
















lemma api_shapes_open:
  "\<forall>i \<in> set (request_shapes @ response_shapes). snd (flatten i) = Some TUnknown"
  by (simp add: request_shapes_def response_shapes_def ApiRequest_def ApiResponse_def
      extend_shape_def omit_shape_def Clients_Client_def Listings_Listing_def
      Estimate_AddRequest_def Estimate_GetRequest_def Estimate_DeleteRequest_def
      Estimate_PatchRequest_def Listings_SearchRequest_def Listings_SimilarRequest_def
      Listings_ListingRequest_def Listings_LocationsRequest_def Listings_NlpRequest_def
      Searches_CreateRequest_def Searches_UpdateRequest_def Searches_FilterRequest_def
      Searches_DeleteRequest_def Searches_GetRequest_def Clients_CreateRequest_def
      Clients_UpdateRequest_def Clients_FilterRequest_def Clients_RenameTagRequest_def
      Favorites_AddRequest_def Favorites_DeleteRequest_def Favorites_GetRequest_def
      Messages_SendRequest_def Estimate_AddResponse_def Estimate_GetResponse_def
      Estimate_DeleteResponse_def Estimate_PatchResponse_def Listings_SearchResponse_def
      Listings_SimilarResponse_def Listings_ListingResponse_def Listings_LocationsResponse_def
      Listings_NlpResponse_def Searches_CreateResponse_def Searches_UpdateResponse_def
      Searches_FilterResponse_def Searches_DeleteResponse_def Searches_GetResponse_def
      Clients_CreateResponse_def Clients_UpdateResponse_def Clients_DeleteResponse_def
      Clients_GetResponse_def Clients_FilterResponse_def Clients_GetTagsResponse_def
      Clients_RenameTagResponse_def Favorites_AddResponse_def Favorites_DeleteResponse_def
      Favorites_GetResponse_def Messages_SendResponse_def)

text \<open>
  Claim C10. Each of the markers \<open>ApiRequest\<close>, \<open>ApiResponse\<close> and \<open>ApiRequestBody\<close>
  extends \<open>Record<string, unknown>\<close> and so has the index signature \<open>[key: string]: unknown\<close>, and so has every interface
  declared to extend one of them with a body of its own members only. Every request
  and response shape of the catalogue has that index signature: when it accepts a
  payload, it accepts the payload with one more field of an undeclared name, whatever
  the value.
\<close>

theorem C10_marked_shapes_accept_unknown_fields:
  "(i \<in> set (request_shapes @ response_shapes) \<longrightarrow> snd (flatten i) = Some TUnknown)
 \<and> (i \<in> set (request_shapes @ response_shapes) \<and> accepts i (JObject fs)
      \<and> u \<notin> set (map fst fs) \<and> u \<notin> set (declared_names i)
    \<longrightarrow> accepts i (JObject (fs @ [(u, x)])))
 \<and> (m = ApiRequest \<or> m = ApiResponse \<or> m = ApiRequestBody \<longrightarrow>
       heritage m = [ExtendsRecord TUnknown]
     \<and> snd (flatten m) = Some TUnknown
     \<and> snd (flatten (Interface n [Extends m] ms None)) = Some TUnknown)"
proof (intro conjI impI)
  assume "i \<in> set (request_shapes @ response_shapes)"
  then show "snd (flatten i) = Some TUnknown" using api_shapes_open by blast
next
  assume h: "i \<in> set (request_shapes @ response_shapes) \<and> accepts i (JObject fs)
      \<and> u \<notin> set (map fst fs) \<and> u \<notin> set (declared_names i)"
  then have "snd (flatten i) = Some TUnknown" using api_shapes_open by blast
  with h show "accepts i (JObject (fs @ [(u, x)]))"
    using accepts_unknown_field by blast
next
  assume m: "m = ApiRequest \<or> m = ApiResponse \<or> m = ApiRequestBody"
  then show "heritage m = [ExtendsRecord TUnknown]"
    by (auto simp: ApiRequest_def ApiResponse_def ApiRequestBody_def)
  from m show a: "snd (flatten m) = Some TUnknown"
    by (auto simp: ApiRequest_def ApiResponse_def ApiRequestBody_def extend_shape_def)
  then show "snd (flatten (Interface n [Extends m] ms None)) = Some TUnknown"
    by (simp add: extend_shape_def)
qed

text \<open>A favorite with an extra field, and a would-be strict shape over the request marker.\<close>

theorem C10_marked_shapes_accept_unknown_fields_witness:
  "accepts Favorites_AddRequest
     (JObject [(''clientId'', JNumber 5), (''mlsNumber'', JString ''HMS1234567'')])
 \<and> accepts Favorites_AddRequest
     (JObject [(''clientId'', JNumber 5), (''mlsNumber'', JString ''HMS1234567''),
               (''note'', JBool True)])
 \<and> snd (flatten (Interface ''Strict'' [Extends ApiRequest] [req ''id'' TNumber] None))
     = Some TUnknown"
proof -
  have i: "Favorites_AddRequest \<in> set (request_shapes @ response_shapes)"
    by (simp add: request_shapes_def)
  have a: "accepts Favorites_AddRequest
     (JObject [(''clientId'', JNumber 5), (''mlsNumber'', JString ''HMS1234567'')])"
    by (simp add: accepts_object Favorites_AddRequest_def ApiRequest_def required_names_def
        field_type_def extend_shape_def)
  have u: "''note'' \<notin> set (declared_names Favorites_AddRequest)"
    by (simp add: declared_names_def Favorites_AddRequest_def ApiRequest_def extend_shape_def)
  have d: "''note'' \<notin> set (map fst [(''clientId'', JNumber 5), (''mlsNumber'', JString ''HMS1234567'')])"
    by simp
  have e: "[(''clientId'', JNumber 5), (''mlsNumber'', JString ''HMS1234567'')] @ [(''note'', JBool True)]
      = [(''clientId'', JNumber 5), (''mlsNumber'', JString ''HMS1234567''), (''note'', JBool True)]"
    by simp
  show ?thesis
    using C10_marked_shapes_accept_unknown_fields[of Favorites_AddRequest
        "[(''clientId'', JNumber 5), (''mlsNumber'', JString ''HMS1234567'')]" "''note''"
        "JBool True" ApiRequest "''Strict''" "[req ''id'' TNumber]"] i a u d
    unfolding e by blast
qed

end
